theory Spec2Isabelle
  imports Complex_Main
begin

section \<open>Data model (shared/schema.ts)\<close>

text \<open>
  Timestamps (\<open>new Date()\<close>) are natural numbers handed in by the caller as \<open>now\<close>.
  Nullable booleans of the schema are only ever tested for truthiness, so \<open>null\<close> and
  \<open>false\<close> are both \<open>False\<close> here. Nullable numbers keep their \<open>null\<close> as \<open>None\<close>.
\<close>

datatype role = User | Assistant | System

record ContextMessage =
  cm_role :: role
  cm_content :: string
  cm_timestamp :: nat

text \<open>The \<open>context\<close> column is \<open>jsonb\<close>: the code tests it with \<open>Array.isArray\<close>.\<close>

datatype jsonb = NotArray | Array "ContextMessage list"

record Conversation =
  conv_id :: nat
  conv_userId :: string
  conv_context :: jsonb
  conv_active :: bool
  conv_lastUpdated :: nat
  conv_createdAt :: nat

record BotSettings =
  contextAwareness :: bool
  autoModeration :: bool
  userTracking :: bool
  debugMode :: bool
  nlpModel :: "string option"
  temperature :: "string option"
  maxTokens :: "int option"
  contextSize :: "int option"

record DiscordUser =
  du_id :: string
  du_username :: string
  du_createdAt :: nat

datatype action = ANone | Warn | Mute | Kick | Ban

record ModerationAction =
  ma_id :: nat
  ma_userId :: string
  ma_type :: action
  ma_reason :: string
  ma_createdAt :: nat

section \<open>MemStorage (server/storage.ts)\<close>

text \<open>
  A JavaScript \<open>Map\<close> keeps its entries in insertion order; \<open>set\<close> on a key already
  present replaces the value in place, on a new key it appends. The entries are kept as
  the list of values, the key being the value's own id field.
\<close>

record MemStorage =
  discordUsers :: "DiscordUser list"
  conversations :: "Conversation list"
  botSettings :: "BotSettings option"
  moderationActions :: "ModerationAction list"
  currentConversationId :: nat
  currentModerationActionId :: nat

fun map_set :: "('v \<Rightarrow> 'k) \<Rightarrow> 'v \<Rightarrow> 'v list \<Rightarrow> 'v list" where
  "map_set key v [] = [v]"
| "map_set key v (x # xs) = (if key x = key v then v # xs else x # map_set key v xs)"

definition map_get :: "('v \<Rightarrow> 'k) \<Rightarrow> 'k \<Rightarrow> 'v list \<Rightarrow> 'v option" where
  "map_get key k xs = find (\<lambda>x. key x = k) xs"

definition getDiscordUser :: "string \<Rightarrow> MemStorage \<Rightarrow> DiscordUser option" where
  "getDiscordUser uid s = map_get du_id uid (discordUsers s)"

definition createDiscordUser :: "nat \<Rightarrow> string \<Rightarrow> string \<Rightarrow> MemStorage \<Rightarrow> MemStorage" where
  "createDiscordUser now uid username s =
     s\<lparr>discordUsers :=
         map_set du_id \<lparr>du_id = uid, du_username = username, du_createdAt = now\<rparr> (discordUsers s)\<rparr>"

definition getConversation :: "nat \<Rightarrow> MemStorage \<Rightarrow> Conversation option" where
  "getConversation cid s = map_get conv_id cid (conversations s)"

definition getActiveConversationByUserId :: "string \<Rightarrow> MemStorage \<Rightarrow> Conversation option" where
  "getActiveConversationByUserId userId s =
     find (\<lambda>conversation. conv_userId conversation = userId \<and> conv_active conversation)
       (conversations s)"

definition createConversation ::
  "nat \<Rightarrow> string \<Rightarrow> jsonb \<Rightarrow> bool \<Rightarrow> MemStorage \<Rightarrow> Conversation \<times> MemStorage" where
  "createConversation now userId ctx act s =
     (let cid = currentConversationId s;
          conversation = \<lparr>conv_id = cid, conv_userId = userId, conv_context = ctx,
                          conv_active = act, conv_lastUpdated = now, conv_createdAt = now\<rparr>
      in (conversation,
          s\<lparr>currentConversationId := cid + 1,
            conversations := map_set conv_id conversation (conversations s)\<rparr>))"

definition updateConversation ::
  "nat \<Rightarrow> nat \<Rightarrow> jsonb \<Rightarrow> MemStorage \<Rightarrow> Conversation option \<times> MemStorage" where
  "updateConversation now cid ctx s =
     (case getConversation cid s of
        None \<Rightarrow> (None, s)
      | Some conversation \<Rightarrow>
          (let updatedConversation = conversation\<lparr>conv_context := ctx, conv_lastUpdated := now\<rparr>
           in (Some updatedConversation,
               s\<lparr>conversations := map_set conv_id updatedConversation (conversations s)\<rparr>)))"

definition storage_closeConversation :: "nat \<Rightarrow> nat \<Rightarrow> MemStorage \<Rightarrow> bool \<times> MemStorage" where
  "storage_closeConversation now cid s =
     (case getConversation cid s of
        None \<Rightarrow> (False, s)
      | Some conversation \<Rightarrow>
          (let updatedConversation = conversation\<lparr>conv_active := False, conv_lastUpdated := now\<rparr>
           in (True, s\<lparr>conversations := map_set conv_id updatedConversation (conversations s)\<rparr>)))"

definition getBotSettings :: "MemStorage \<Rightarrow> BotSettings option" where
  "getBotSettings s = botSettings s"

text \<open>
  \<open>updateBotSettings(settings)\<close> spreads a partial record over the stored one; the
  partial record is given as the function that overwrites the fields it names.
\<close>

definition updateBotSettings :: "(BotSettings \<Rightarrow> BotSettings) \<Rightarrow> MemStorage \<Rightarrow> MemStorage" where
  "updateBotSettings settings s =
     (case botSettings s of
        None \<Rightarrow> s
      | Some bs \<Rightarrow> s\<lparr>botSettings := Some (settings bs)\<rparr>)"

definition createModerationAction ::
  "nat \<Rightarrow> string \<Rightarrow> action \<Rightarrow> string \<Rightarrow> MemStorage \<Rightarrow> ModerationAction \<times> MemStorage" where
  "createModerationAction now userId ty reason s =
     (let mid = currentModerationActionId s;
          act = \<lparr>ma_id = mid, ma_userId = userId, ma_type = ty, ma_reason = reason,
                 ma_createdAt = now\<rparr>
      in (act,
          s\<lparr>currentModerationActionId := mid + 1,
            moderationActions := map_set ma_id act (moderationActions s)\<rparr>))"

text \<open>
  The invariant the \<open>Map\<close> gives for free: keys are distinct, and the id counter is
  above every key handed out so far.
\<close>

definition wf_store :: "MemStorage \<Rightarrow> bool" where
  "wf_store s \<longleftrightarrow>
     distinct (map conv_id (conversations s)) \<and>
     list_all (\<lambda>c. conv_id c < currentConversationId s) (conversations s)"

section \<open>Context manager (server/bot/context.ts)\<close>

definition DEFAULT_CONTEXT_SIZE :: int where
  "DEFAULT_CONTEXT_SIZE = 5"

text \<open>\<open>x || d\<close> on a nullable number: \<open>null\<close> and \<open>0\<close> are falsy.\<close>

definition or_default :: "int option \<Rightarrow> int \<Rightarrow> int" where
  "or_default x d = (case x of None \<Rightarrow> d | Some n \<Rightarrow> if n = 0 then d else n)"

text \<open>
  \<open>Array.prototype.slice(start)\<close> for an integral \<open>start\<close>: a negative start counts
  from the end and is clamped at 0, a non-negative one is clamped at the length.
  \<open>slice(-0)\<close> is \<open>slice(0)\<close>.
\<close>

definition js_slice :: "int \<Rightarrow> 'a list \<Rightarrow> 'a list" where
  "js_slice start xs =
     (let len = int (length xs);
          k = (if start < 0 then max (len + start) 0 else min start len)
      in drop (nat k) xs)"

record Message =
  msg_authorId :: string
  msg_authorUsername :: string
  msg_authorBot :: bool
  msg_content :: string
  msg_mentionsBot :: bool
  msg_isDM :: bool
  msg_inGuild :: bool

text \<open>
  \<open>msg_mentionsBot\<close> is \<open>message.mentions.has(client.user.id)\<close>, \<open>msg_isDM\<close> is
  \<open>message.channel.isDMBased()\<close>, \<open>msg_inGuild\<close> is \<open>message.guild && message.member\<close>.
\<close>

definition getContext :: "nat \<Rightarrow> string \<Rightarrow> MemStorage \<Rightarrow> ContextMessage list \<times> MemStorage" where
  "getContext now userId s =
     (case getBotSettings s of
        None \<Rightarrow> ([], s)
      | Some bs \<Rightarrow>
          if \<not> contextAwareness bs then ([], s)
          else
            (let ctxSize = or_default (contextSize bs) DEFAULT_CONTEXT_SIZE;
                 (conversation, s1) =
                   (case getActiveConversationByUserId userId s of
                      None \<Rightarrow> createConversation now userId (Array []) True s
                    | Some c \<Rightarrow> (c, s))
             in ((case conv_context conversation of
                    Array xs \<Rightarrow> js_slice (- ctxSize) xs
                  | NotArray \<Rightarrow> []), s1)))"

definition addUserMessage :: "nat \<Rightarrow> Message \<Rightarrow> MemStorage \<Rightarrow> MemStorage" where
  "addUserMessage now message s =
     (case getBotSettings s of
        None \<Rightarrow> s
      | Some bs \<Rightarrow>
          if \<not> contextAwareness bs then s
          else
            (let (conversation, s1) =
                   (case getActiveConversationByUserId (msg_authorId message) s of
                      None \<Rightarrow> createConversation now (msg_authorId message) (Array []) True s
                    | Some c \<Rightarrow> (c, s));
                 contextMessage = \<lparr>cm_role = User, cm_content = msg_content message,
                                   cm_timestamp = now\<rparr>;
                 updatedContext =
                   (case conv_context conversation of
                      Array xs \<Rightarrow> xs @ [contextMessage]
                    | NotArray \<Rightarrow> [contextMessage]);
                 ctxSize = or_default (contextSize bs) DEFAULT_CONTEXT_SIZE;
                 limited = (if int (length updatedContext) > ctxSize * 2
                            then js_slice (- ctxSize * 2) updatedContext else updatedContext)
             in snd (updateConversation now (conv_id conversation) (Array limited) s1)))"

definition addBotMessage :: "nat \<Rightarrow> string \<Rightarrow> string \<Rightarrow> MemStorage \<Rightarrow> MemStorage" where
  "addBotMessage now userId content s =
     (case getBotSettings s of
        None \<Rightarrow> s
      | Some bs \<Rightarrow>
          if \<not> contextAwareness bs then s
          else
            (case getActiveConversationByUserId userId s of
               None \<Rightarrow> s
             | Some conversation \<Rightarrow>
                 (let contextMessage = \<lparr>cm_role = Assistant, cm_content = content,
                                        cm_timestamp = now\<rparr>;
                      updatedContext =
                        (case conv_context conversation of
                           Array xs \<Rightarrow> xs @ [contextMessage]
                         | NotArray \<Rightarrow> [contextMessage]);
                      ctxSize = or_default (contextSize bs) DEFAULT_CONTEXT_SIZE;
                      limited = (if int (length updatedContext) > ctxSize * 2
                                 then js_slice (- ctxSize * 2) updatedContext else updatedContext)
                  in snd (updateConversation now (conv_id conversation) (Array limited) s))))"

definition closeConversation :: "nat \<Rightarrow> string \<Rightarrow> MemStorage \<Rightarrow> bool \<times> MemStorage" where
  "closeConversation now userId s =
     (case getActiveConversationByUserId userId s of
        None \<Rightarrow> (False, s)
      | Some conversation \<Rightarrow> storage_closeConversation now (conv_id conversation) s)"

definition SYSTEM_PROMPT :: string where
  "SYSTEM_PROMPT = ''You are a helpful Discord bot assistant. Provide concise, accurate information. If you don't know something, say so rather than making up information.''"

definition formatContextForNLP :: "ContextMessage list \<Rightarrow> (role \<times> string) list" where
  "formatContextForNLP ctx = (System, SYSTEM_PROMPT) # map (\<lambda>m. (cm_role m, cm_content m)) ctx"

definition updateContext :: "nat \<Rightarrow> string \<Rightarrow> int \<Rightarrow> MemStorage \<Rightarrow> MemStorage" where
  "updateContext now userId newContextSize s =
     (case getActiveConversationByUserId userId s of
        None \<Rightarrow> s
      | Some conversation \<Rightarrow>
          (case conv_context conversation of
             NotArray \<Rightarrow> s
           | Array xs \<Rightarrow>
               if int (length xs) > newContextSize * 2
               then snd (updateConversation now (conv_id conversation)
                           (Array (js_slice (- newContextSize * 2) xs)) s)
               else s))"

text \<open>The stored window of a user's active conversation (empty when there is none).\<close>

definition window :: "string \<Rightarrow> MemStorage \<Rightarrow> ContextMessage list" where
  "window userId s =
     (case getActiveConversationByUserId userId s of
        None \<Rightarrow> []
      | Some c \<Rightarrow> (case conv_context c of Array xs \<Rightarrow> xs | NotArray \<Rightarrow> []))"

text \<open>
  The truncation step that the two appends and the resize each write out, named here
  for the proofs: keep the list when it has at most \<open>2n\<close> entries, else \<open>slice(-2n)\<close>.
\<close>

definition keep_recent :: "int \<Rightarrow> 'a list \<Rightarrow> 'a list" where
  "keep_recent n xs = (if int (length xs) > n * 2 then js_slice (- n * 2) xs else xs)"

text \<open>
  Sequences of operations on the store: the two appends, the resize, and a change of
  the settings in between. \<open>size_in_effect\<close> gives, for an operation that bounds a
  window, the user and the context size the code uses for it: for an append (made only
  with context awareness on) the \<open>contextSize\<close> setting, or the default when that is
  unset or 0; for a resize the new size.
\<close>

datatype ctx_op =
    AppendUser nat Message
  | AppendAssistant nat string string
  | Resize nat string int
  | ChangeSettings "BotSettings \<Rightarrow> BotSettings"

fun ctx_step :: "ctx_op \<Rightarrow> MemStorage \<Rightarrow> MemStorage" where
  "ctx_step (AppendUser now message) s = addUserMessage now message s"
| "ctx_step (AppendAssistant now userId content) s = addBotMessage now userId content s"
| "ctx_step (Resize now userId newContextSize) s = updateContext now userId newContextSize s"
| "ctx_step (ChangeSettings settings) s = updateBotSettings settings s"

definition ctx_run :: "ctx_op list \<Rightarrow> MemStorage \<Rightarrow> MemStorage" where
  "ctx_run ops s = fold ctx_step ops s"

definition append_size :: "MemStorage \<Rightarrow> int option" where
  "append_size s =
     (case getBotSettings s of
        None \<Rightarrow> None
      | Some bs \<Rightarrow>
          if contextAwareness bs then Some (or_default (contextSize bs) DEFAULT_CONTEXT_SIZE)
          else None)"

fun size_in_effect :: "ctx_op \<Rightarrow> MemStorage \<Rightarrow> (string \<times> int) option" where
  "size_in_effect (AppendUser now message) s =
     map_option (\<lambda>n. (msg_authorId message, n)) (append_size s)"
| "size_in_effect (AppendAssistant now userId content) s =
     map_option (\<lambda>n. (userId, n)) (append_size s)"
| "size_in_effect (Resize now userId newContextSize) s = Some (userId, newContextSize)"
| "size_in_effect (ChangeSettings settings) s = None"

section \<open>JavaScript string helpers\<close>

text \<open>
  A string is a list of characters with codes below 256, read as the code units
  U+0000 to U+00FF. \<open>toLowerCase\<close> maps A to Z and the capital letters U+00C0 to
  U+00DE (but not the multiplication sign U+00D7) to the letter 32 above. Of these
  code units \<open>String.prototype.trim\<close> strips tab, line feed, vertical tab, form
  feed, carriage return, space and the no-break space U+00A0.
\<close>

fun startsWith :: "string \<Rightarrow> string \<Rightarrow> bool" where
  "startsWith s [] = True"
| "startsWith [] (p # ps) = False"
| "startsWith (c # cs) (p # ps) = (c = p \<and> startsWith cs ps)"

fun js_includes :: "string \<Rightarrow> string \<Rightarrow> bool" where
  "js_includes [] p = (p = [])"
| "js_includes (c # cs) p = (startsWith (c # cs) p \<or> js_includes cs p)"

definition toLower :: "char \<Rightarrow> char" where
  "toLower c =
     (let n = (of_char c :: nat)
      in if (65 \<le> n \<and> n \<le> 90) \<or> (192 \<le> n \<and> n \<le> 222 \<and> n \<noteq> 215)
         then char_of (n + 32) else c)"

definition toLowerCase :: "string \<Rightarrow> string" where
  "toLowerCase s = map toLower s"

definition isWhitespace :: "char \<Rightarrow> bool" where
  "isWhitespace c \<longleftrightarrow> (of_char c :: nat) \<in> {9, 10, 11, 12, 13, 32, 160}"

definition trim :: "string \<Rightarrow> string" where
  "trim s = rev (dropWhile isWhitespace (rev (dropWhile isWhitespace s)))"

fun join :: "string \<Rightarrow> string list \<Rightarrow> string" where
  "join sep [] = []"
| "join sep [x] = x"
| "join sep (x # y # ys) = x @ sep @ join sep (y # ys)"

text \<open>Truthiness of a string: only the empty string is falsy.\<close>

definition truthy :: "string \<Rightarrow> bool" where
  "truthy s \<longleftrightarrow> s \<noteq> []"

text \<open>\<open>x || d\<close> on a nullable string: \<open>null\<close> and the empty string are falsy.\<close>

definition str_or :: "string option \<Rightarrow> string \<Rightarrow> string" where
  "str_or x d = (case x of None \<Rightarrow> d | Some v \<Rightarrow> if truthy v then v else d)"

section \<open>World, external outcomes and the history of calls\<close>

text \<open>
  The modules call three collaborators: the gateway (reply, delete, private notice,
  timeout, kick, ban), the generation backend (chat completion) and the content-safety
  scorer. What each call returns or throws is not decided by this program, so it is an
  input of the model (\<open>env\<close>). The world carries the module-level variables of the
  source and a history of the calls made on the gateway and on the chat-completion
  endpoint, in program order, each with whether it succeeded; the history also notes
  each write to the moderation log. Calls of the scorer, the typing indicator and
  console output are not noted.
\<close>

text \<open>One entry of \<open>results\<close> in the scorer's response.\<close>

record ModerationScores =
  flagged :: bool
  categories :: "(string \<times> bool) list"
  category_scores :: "(string \<times> real) list"

datatype scorer_outcome = ScorerThrows | ScorerReturns "ModerationScores list"

text \<open>
  A chat completion either throws (the error's \<open>toString()\<close> is kept) or returns
  its \<open>choices\<close>, each with a nullable message content.
\<close>

datatype backend_outcome = BackendThrows string | BackendReturns "string option list"

text \<open>
  What \<open>JSON.parse\<close> and the reads of \<open>rating\<close> and \<open>confidence\<close> make of the
  backend's answer in \<open>analyzeSentiment\<close>: a thrown error (its \<open>toString()\<close>), or
  the two numbers.
\<close>

datatype sentiment_outcome = SentimentThrows string | SentimentParsed real real

record env =
  scorer :: scorer_outcome
  backend :: backend_outcome
  sentiment :: sentiment_outcome
  reply_ok :: bool
  apology_ok :: bool
  delete_ok :: bool
  send_ok :: bool
  timeout_ok :: bool
  kick_ok :: bool
  ban_ok :: bool

text \<open>
  \<open>ChatCompletion model messages temperature max_tokens\<close>: the temperature is kept as
  the text handed to \<open>parseFloat\<close>. \<open>ChatCompletionJson model messages\<close> is the
  completion request of \<open>analyzeSentiment\<close>, which asks for a JSON object. \<open>Timeout\<close>
  carries the duration in milliseconds.
\<close>

datatype call =
    Reply string
  | ChatCompletion string "(role \<times> string) list" string int
  | ChatCompletionJson string "(role \<times> string) list"
  | Delete
  | AuthorSend string
  | Timeout nat string
  | MemberKick string
  | GuildBan string string
  | RecordModeration string action string

type_synonym event = "call \<times> bool"

record world =
  storage :: MemStorage
  useOpenAI :: bool
  isReady :: bool
  hasMessageContentPrivilege :: bool
  trace :: "event list"

definition log_call :: "call \<Rightarrow> bool \<Rightarrow> world \<Rightarrow> world" where
  "log_call c ok w = w\<lparr>trace := trace w @ [(c, ok)]\<rparr>"

definition is_side_effect :: "call \<Rightarrow> bool" where
  "is_side_effect c =
     (case c of Delete \<Rightarrow> True | AuthorSend _ \<Rightarrow> True | Timeout _ _ \<Rightarrow> True
      | MemberKick _ \<Rightarrow> True | GuildBan _ _ \<Rightarrow> True | _ \<Rightarrow> False)"

section \<open>Moderation (server/bot/moderation.ts)\<close>

record ModerationResult =
  mr_action :: action
  mr_reason :: "string option"

text \<open>The string each member of the union type \<open>ModerationResult['action']\<close> stands for.\<close>

fun action_str :: "action \<Rightarrow> string" where
  "action_str ANone = ''none''"
| "action_str Warn = ''warn''"
| "action_str Mute = ''mute''"
| "action_str Kick = ''kick''"
| "action_str Ban = ''ban''"

definition highSeverityCategories :: "string list" where
  "highSeverityCategories =
     [''sexual/minors'', ''violence/graphic'', ''hate/threatening'', ''self-harm/intent'']"

text \<open>
  \<open>Math.max(...xs)\<close>: \<open>-Infinity\<close> on no arguments, written \<open>None\<close>, which is
  greater than no threshold. Scores are compared exactly, as reals.
\<close>

definition Math_max :: "real list \<Rightarrow> real option" where
  "Math_max xs = (case xs of [] \<Rightarrow> None | x # ys \<Rightarrow> Some (fold max ys x))"

definition exceeds :: "real option \<Rightarrow> real \<Rightarrow> bool" where
  "exceeds m t = (case m of None \<Rightarrow> False | Some v \<Rightarrow> v > t)"

text \<open>
  The notices start with an emoji in the source; it is left out of the text here.
  Every gateway call sits in a \<open>try\<close>: a failed delete is logged and the function goes
  on; a failure inside the \<open>switch\<close> leaves the \<open>switch\<close>.
\<close>

definition executeModerationAction :: "env \<Rightarrow> Message \<Rightarrow> action \<Rightarrow> string \<Rightarrow> world \<Rightarrow> world" where
  "executeModerationAction e message act reason w =
     (if act = ANone then w
      else
        (let w1 = log_call Delete (delete_ok e) w
         in case act of
              Warn \<Rightarrow>
                log_call (AuthorSend (''Warning: Your message was removed. '' @ reason)) (send_ok e) w1
            | Mute \<Rightarrow>
                if msg_inGuild message then
                  (let w2 = log_call (Timeout (10 * 60 * 1000) reason) (timeout_ok e) w1
                   in if timeout_ok e
                      then log_call (AuthorSend (''You have been temporarily muted. '' @ reason))
                             (send_ok e) w2
                      else w2)
                else w1
            | Kick \<Rightarrow>
                if msg_inGuild message then log_call (MemberKick reason) (kick_ok e) w1 else w1
            | Ban \<Rightarrow>
                if msg_inGuild message
                then log_call (GuildBan (msg_authorId message) reason) (ban_ok e) w1 else w1
            | ANone \<Rightarrow> w1))"

datatype exn = ScorerError | TypeError

definition no_action :: ModerationResult where
  "no_action = \<lparr>mr_action = ANone, mr_reason = None\<rparr>"

text \<open>The body of the \<open>try\<close> block of \<open>moderateMessage\<close>: \<open>Inl\<close> is a thrown exception.\<close>

definition moderateMessage_try ::
  "nat \<Rightarrow> env \<Rightarrow> Message \<Rightarrow> world \<Rightarrow> (exn + ModerationResult) \<times> world" where
  "moderateMessage_try now e message w =
     (case getBotSettings (storage w) of
        None \<Rightarrow> (Inr no_action, w)
      | Some bs \<Rightarrow>
          if \<not> autoModeration bs then (Inr no_action, w)
          else if \<not> truthy (trim (msg_content message)) then (Inr no_action, w)
          else
            (case scorer e of
               ScorerThrows \<Rightarrow> (Inl ScorerError, w)
             | ScorerReturns [] \<Rightarrow> (Inl TypeError, w)
             | ScorerReturns (results # _) \<Rightarrow>
                 if flagged results then
                   (let flaggedCategories = map fst (filter snd (categories results));
                        maxScore = Math_max (map snd (category_scores results));
                        hasHighSeverity =
                          list_ex (\<lambda>category. category \<in> set highSeverityCategories)
                            flaggedCategories;
                        decided =
                          (if hasHighSeverity \<or> exceeds maxScore 0.9 then Some Mute
                           else if exceeds maxScore 0.7 then Some Warn
                           else None)
                    in case decided of
                         None \<Rightarrow> (Inr no_action, w)
                       | Some act \<Rightarrow>
                           (let reason = ''Message contained inappropriate content: '' @
                                           join '', '' flaggedCategories;
                                s1 = snd (createModerationAction now (msg_authorId message) act
                                            reason (storage w));
                                w1 = log_call (RecordModeration (msg_authorId message) act reason)
                                       True (w\<lparr>storage := s1\<rparr>);
                                w2 = executeModerationAction e message act reason w1
                            in (Inr \<lparr>mr_action = act, mr_reason = Some reason\<rparr>, w2)))
                 else (Inr no_action, w)))"

definition moderateMessage :: "nat \<Rightarrow> env \<Rightarrow> Message \<Rightarrow> world \<Rightarrow> ModerationResult \<times> world" where
  "moderateMessage now e message w =
     (case moderateMessage_try now e message w of
        (Inr result, w') \<Rightarrow> (result, w')
      | (Inl err, w') \<Rightarrow> (no_action, w'))"

section \<open>NLP responder (server/bot/nlp.ts)\<close>

definition getFallbackResponse :: "string \<Rightarrow> string" where
  "getFallbackResponse prompt =
     (let promptLower = toLowerCase prompt
      in if js_includes promptLower ''help'' \<or> js_includes promptLower ''command'' then
           ''I can help you with various tasks! Try commands like 'info', 'weather', 'reminder', or just chat with me naturally.''
         else if js_includes promptLower ''hello'' \<or> js_includes promptLower ''hi '' \<or>
                 promptLower = ''hi'' then
           ''Hello there! I'm your AI assistant bot. How can I help you today?''
         else if js_includes promptLower ''weather'' then
           ''I'd like to provide weather information, but I'm currently running in offline mode. Please add a valid API key to enable full functionality.''
         else if js_includes promptLower ''joke'' \<or> js_includes promptLower ''funny'' then
           ''Why don't scientists trust atoms? Because they make up everything!''
         else if js_includes promptLower ''thank'' then
           ''You're welcome! Let me know if you need anything else.''
         else if js_includes promptLower ''discord'' then
           ''Discord is a popular communication platform designed for creating communities. Users can communicate via voice calls, video calls, text messaging, and media and files in private chats or as part of communities called 'servers'.''
         else if js_includes promptLower ''bot'' \<or> js_includes promptLower ''ai'' then
           ''I'm an AI assistant designed to help with conversations, answer questions, and assist with various tasks on Discord. I'm currently running with limited functionality.''
         else
           ''I'm currently operating in offline mode with limited functionality. Please provide a valid OpenAI API key with sufficient quota to enable my full AI capabilities.'')"

definition NO_RESPONSE :: string where
  "NO_RESPONSE = ''I'm sorry, I couldn't generate a response.''"

definition NLP_APOLOGY :: string where
  "NLP_APOLOGY = ''I'm sorry, I'm having trouble processing your request right now. Please try again later.''"

text \<open>
  \<open>completion.choices[0].message.content || d\<close>, inside the \<open>try\<close>: with no choice
  the property read throws a \<open>TypeError\<close>. \<open>Inl\<close> is the text of what was thrown.
\<close>

definition completion_or :: "string \<Rightarrow> backend_outcome \<Rightarrow> string + string" where
  "completion_or d b =
     (case b of
        BackendThrows err \<Rightarrow> Inl err
      | BackendReturns [] \<Rightarrow>
          Inl ''TypeError: Cannot read properties of undefined (reading 'message')''
      | BackendReturns (c # _) \<Rightarrow> Inr (str_or c d))"

definition completion_text :: "backend_outcome \<Rightarrow> string + string" where
  "completion_text b = completion_or NO_RESPONSE b"

text \<open>The test that demotes the responder: the error text names a quota or rate limit.\<close>

definition is_limit_error :: "string \<Rightarrow> bool" where
  "is_limit_error err \<longleftrightarrow> js_includes err ''insufficient_quota'' \<or> js_includes err ''rate limit''"

text \<open>
  \<open>processNaturalLanguage\<close>. The typing indicator is optional and its failure ignored;
  it is not noted in the history. The only call of the outer \<open>try\<close> that can throw is
  the reply; the \<open>catch\<close> then sends the apology.
\<close>

definition processNaturalLanguage :: "nat \<Rightarrow> env \<Rightarrow> Message \<Rightarrow> world \<Rightarrow> world" where
  "processNaturalLanguage now e message w =
     (let userId = msg_authorId message;
          s1 = addUserMessage now message (storage w);
          (ctx, s2) = getContext now userId s1;
          bs = getBotSettings s2;
          model = str_or (case bs of None \<Rightarrow> None | Some b \<Rightarrow> nlpModel b) ''gpt-4o'';
          temp = str_or (case bs of None \<Rightarrow> None | Some b \<Rightarrow> temperature b) ''0.7'';
          maxTok = or_default (case bs of None \<Rightarrow> None | Some b \<Rightarrow> maxTokens b) 150;
          w1 = w\<lparr>storage := s2\<rparr>;
          (aiResponse, w2) =
            (if \<not> useOpenAI w1 then (getFallbackResponse (msg_content message), w1)
             else
               (let messages = formatContextForNLP ctx;
                    w1' = log_call
                            (ChatCompletion (if model = ''gpt'' then ''gpt-4o'' else model)
                               messages temp maxTok)
                            (\<not> isl (completion_text (backend e))) w1
                in case completion_text (backend e) of
                     Inr text \<Rightarrow> (text, w1')
                   | Inl err \<Rightarrow>
                       (getFallbackResponse (msg_content message),
                        if is_limit_error err then w1'\<lparr>useOpenAI := False\<rparr> else w1')));
          w3 = log_call (Reply aiResponse) (reply_ok e) w2
      in if reply_ok e
         then w3\<lparr>storage := addBotMessage now userId aiResponse (storage w3)\<rparr>
         else log_call (Reply NLP_APOLOGY) (apology_ok e) w3)"









section \<open>Dispatcher (server/bot/index.ts)\<close>

definition PREFIX :: string where
  "PREFIX = ''!''"

definition LIMITED_REPLY :: string where
  "LIMITED_REPLY = ''Hi there! I'm currently running with limited permissions. '' @
     ''I can see that you mentioned me, but I can't read message content due to Discord's privacy rules. '' @
     ''Please ask your server admin to enable the 'MESSAGE CONTENT INTENT' for me in the Discord Developer Portal.''"

definition DISPATCH_APOLOGY :: string where
  "DISPATCH_APOLOGY = ''Sorry, I encountered an error processing your request. Please try again later.''"

definition ensureUserExists :: "nat \<Rightarrow> Message \<Rightarrow> MemStorage \<Rightarrow> MemStorage" where
  "ensureUserExists now message s =
     (case getDiscordUser (msg_authorId message) s of
        None \<Rightarrow> createDiscordUser now (msg_authorId message) (msg_authorUsername message) s
      | Some user \<Rightarrow> s)"

text \<open>
  The body of the handler's \<open>try\<close> block; the first component is \<open>False\<close> when it threw.
  The command handler is a parameter: it returns whether it ended normally, and the
  world it left.
\<close>

definition onMessageCreate_try ::
  "(Message \<Rightarrow> world \<Rightarrow> bool \<times> world) \<Rightarrow> nat \<Rightarrow> env \<Rightarrow> Message \<Rightarrow> world \<Rightarrow> bool \<times> world" where
  "onMessageCreate_try handleCommand now e message w =
     (let w1 = w\<lparr>storage := ensureUserExists now message (storage w)\<rparr>
      in if hasMessageContentPrivilege w1 then
           (if startsWith (msg_content message) PREFIX then handleCommand message w1
            else
              (let (moderated, w2) =
                     (case getBotSettings (storage w1) of
                        None \<Rightarrow> (False, w1)
                      | Some bs \<Rightarrow>
                          if autoModeration bs then
                            (let (moderationResult, w') = moderateMessage now e message w1
                             in (truthy (action_str (mr_action moderationResult)), w'))
                          else (False, w1))
               in if moderated then (True, w2)
                  else if msg_mentionsBot message \<or> msg_isDM message
                       then (True, processNaturalLanguage now e message w2)
                       else (True, w2)))
         else
           (if msg_mentionsBot message \<or> msg_isDM message
            then (reply_ok e, log_call (Reply LIMITED_REPLY) (reply_ok e) w1)
            else (True, w1)))"

definition onMessageCreate ::
  "(Message \<Rightarrow> world \<Rightarrow> bool \<times> world) \<Rightarrow> nat \<Rightarrow> env \<Rightarrow> Message \<Rightarrow> world \<Rightarrow> world" where
  "onMessageCreate handleCommand now e message w =
     (if \<not> isReady w \<or> msg_authorBot message then w
      else
        (case onMessageCreate_try handleCommand now e message w of
           (True, w') \<Rightarrow> w'
         | (False, w') \<Rightarrow> log_call (Reply DISPATCH_APOLOGY) (apology_ok e) w'))"

section \<open>Operations of the responder as steps\<close>





text \<open>
  The text the responder settles on (\<open>aiResponse\<close> in \<open>processNaturalLanguage\<close>, the
  value returned by \<open>generateResponse\<close>), named here for the proofs.
\<close>

definition nlp_answer :: "env \<Rightarrow> string \<Rightarrow> world \<Rightarrow> string" where
  "nlp_answer e prompt w =
     (if \<not> useOpenAI w then getFallbackResponse prompt
      else case completion_text (backend e) of
             Inr text \<Rightarrow> text
           | Inl err \<Rightarrow> getFallbackResponse prompt)"

section \<open>The classifier as the specification words it\<close>

text \<open>
  The decision policy with \<open>maxScore\<close> taken over the flagged categories only, for
  comparison with \<open>moderateMessage\<close>.
\<close>

definition spec_classify :: "ModerationScores \<Rightarrow> action" where
  "spec_classify r =
     (let flaggedCategories = map fst (filter snd (categories r));
          maxScore = Math_max (map snd (filter (\<lambda>cs. fst cs \<in> set flaggedCategories)
                                          (category_scores r)))
      in if flaggedCategories = [] then ANone
         else if list_ex (\<lambda>c. c \<in> set highSeverityCategories) flaggedCategories
                 \<or> exceeds maxScore 0.9 then Mute
         else if exceeds maxScore 0.7 then Warn
         else ANone)"

section \<open>Concrete values\<close>

text \<open>The settings and the store that \<open>new MemStorage()\<close> builds.\<close>

definition defaultSettings :: BotSettings where
  "defaultSettings =
     \<lparr>contextAwareness = True, autoModeration = True, userTracking = False, debugMode = False,
      nlpModel = Some ''gpt'', temperature = Some ''0.7'', maxTokens = Some 150,
      contextSize = Some 5\<rparr>"

definition initialStorage :: MemStorage where
  "initialStorage =
     \<lparr>discordUsers = [], conversations = [], botSettings = Some defaultSettings,
      moderationActions = [], currentConversationId = 1, currentModerationActionId = 1\<rparr>"

definition liveWorld :: world where
  "liveWorld =
     \<lparr>storage = initialStorage, useOpenAI = True, isReady = True,
      hasMessageContentPrivilege = True, trace = []\<rparr>"

definition dmHello :: Message where
  "dmHello =
     \<lparr>msg_authorId = ''42'', msg_authorUsername = ''alice'', msg_authorBot = False,
      msg_content = ''hello'', msg_mentionsBot = False, msg_isDM = True, msg_inGuild = False\<rparr>"

definition unflaggedScores :: ModerationScores where
  "unflaggedScores =
     \<lparr>flagged = False, categories = [(''harassment'', False)],
      category_scores = [(''harassment'', 0.01)]\<rparr>"

definition calmEnv :: env where
  "calmEnv =
     \<lparr>scorer = ScorerReturns [unflaggedScores], backend = BackendReturns [Some ''Hi!''],
      sentiment = SentimentParsed 4 0.9, reply_ok = True, apology_ok = True, delete_ok = True,
      send_ok = True, timeout_ok = True, kick_ok = True, ban_ok = True\<rparr>"

definition noCommands :: "Message \<Rightarrow> world \<Rightarrow> bool \<times> world" where
  "noCommands message w = (True, w)"

text \<open>A store in which user 42 has an active conversation holding one turn.\<close>

definition oneTurn :: ContextMessage where
  "oneTurn = \<lparr>cm_role = User, cm_content = ''hello'', cm_timestamp = 1\<rparr>"

definition oneTurnStorage :: MemStorage where
  "oneTurnStorage =
     initialStorage
       \<lparr>conversations :=
          [\<lparr>conv_id = 1, conv_userId = ''42'', conv_context = Array [oneTurn], conv_active = True,
            conv_lastUpdated = 1, conv_createdAt = 1\<rparr>],
        currentConversationId := 2\<rparr>"

text \<open>
  A scorer result whose only flagged category scores 0.65, while a category that is not
  flagged scores 0.75; and one that flags a high-severity category.
\<close>

definition mixedScores :: ModerationScores where
  "mixedScores =
     \<lparr>flagged = True, categories = [(''harassment'', True), (''violence'', False)],
      category_scores = [(''harassment'', 0.65), (''violence'', 0.75)]\<rparr>"

definition severeScores :: ModerationScores where
  "severeScores =
     \<lparr>flagged = True, categories = [(''hate/threatening'', True), (''violence'', False)],
      category_scores = [(''hate/threatening'', 0.97), (''violence'', 0.2)]\<rparr>"

text \<open>The freshly built store after the context size was set to 0.\<close>

definition zeroSizeStorage :: MemStorage where
  "zeroSizeStorage = updateBotSettings (\<lambda>bs. bs\<lparr>contextSize := Some 0\<rparr>) initialStorage"

text \<open>A message in a guild channel that mentions the bot.\<close>

definition guildMention :: Message where
  "guildMention =
     \<lparr>msg_authorId = ''42'', msg_authorUsername = ''alice'', msg_authorBot = False,
      msg_content = ''you are all terrible'', msg_mentionsBot = True, msg_isDM = False,
      msg_inGuild = True\<rparr>"

text \<open>The scorer flags the message; every gateway call then fails.\<close>

definition failingEnv :: env where
  "failingEnv =
     calmEnv\<lparr>scorer := ScorerReturns [severeScores], reply_ok := False, apology_ok := False,
             delete_ok := False, send_ok := False, timeout_ok := False, kick_ok := False,
             ban_ok := False\<rparr>"


definition transientEnv :: env where
  "transientEnv = calmEnv\<lparr>backend := BackendThrows ''Error: connect ETIMEDOUT''\<rparr>"


definition limitedWorld :: world where
  "limitedWorld = liveWorld\<lparr>hasMessageContentPrivilege := False\<rparr>"


section \<open>The store as an insertion-ordered map\<close>

lemma map_get_of_find:
  "distinct (map key xs) \<Longrightarrow> find P xs = Some c \<Longrightarrow> map_get key (key c) xs = Some c"
proof (induction xs)
  case Nil
  then show ?case by simp
next
  case (Cons x xs)
  show ?case
  proof (cases "P x")
    case True
    with Cons.prems show ?thesis by (simp add: map_get_def)
  next
    case False
    with Cons.prems have f: "find P xs = Some c" by simp
    then have "c \<in> set xs" by (auto simp: find_Some_iff)
    with Cons.prems have "key x \<noteq> key c" by auto
    with Cons f show ?thesis by (simp add: map_get_def)
  qed
qed

lemma find_map_set_replace:
  "distinct (map key xs) \<Longrightarrow> find P xs = Some c \<Longrightarrow> key c' = key c \<Longrightarrow> P c' \<Longrightarrow>
   find P (map_set key c' xs) = Some c'"
proof (induction xs)
  case Nil
  then show ?case by simp
next
  case (Cons x xs)
  show ?case
  proof (cases "P x")
    case True
    with Cons.prems show ?thesis by simp
  next
    case False
    with Cons.prems have f: "find P xs = Some c" by simp
    then have "c \<in> set xs" by (auto simp: find_Some_iff)
    with Cons.prems have "key x \<noteq> key c'" by auto
    with Cons f False show ?thesis by simp
  qed
qed

lemma map_key_map_set:
  "map key (map_set key v xs) =
     (if key v \<in> key ` set xs then map key xs else map key xs @ [key v])"
  by (induction xs) auto

lemma map_set_fresh: "key v \<notin> key ` set xs \<Longrightarrow> map_set key v xs = xs @ [v]"
  by (induction xs) auto

lemma find_append_None: "find P xs = None \<Longrightarrow> find P (xs @ ys) = find P ys"
  by (induction xs) (auto split: if_splits)

lemma wf_store_ids:
  "wf_store s \<longleftrightarrow> distinct (map conv_id (conversations s)) \<and>
     (\<forall>k \<in> set (map conv_id (conversations s)). k < currentConversationId s)"
  by (auto simp: wf_store_def list_all_iff)

lemma updateConversation_active:
  assumes "wf_store s" and "getActiveConversationByUserId u s = Some c"
  shows "getActiveConversationByUserId u (snd (updateConversation now (conv_id c) ctx s)) =
           Some (c\<lparr>conv_context := ctx, conv_lastUpdated := now\<rparr>)"
proof -
  let ?P = "\<lambda>x. conv_userId x = u \<and> conv_active x"
  from assms have d: "distinct (map conv_id (conversations s))" by (simp add: wf_store_def)
  from assms have f: "find ?P (conversations s) = Some c"
    by (simp add: getActiveConversationByUserId_def)
  then have Pc: "?P c" by (auto simp: find_Some_iff)
  from map_get_of_find[OF d f] have g: "getConversation (conv_id c) s = Some c"
    by (simp add: getConversation_def)
  let ?c' = "c\<lparr>conv_context := ctx, conv_lastUpdated := now\<rparr>"
  have "find ?P (map_set conv_id ?c' (conversations s)) = Some ?c'"
    by (rule find_map_set_replace[OF d f]) (use Pc in simp_all)
  with g show ?thesis
    by (simp add: updateConversation_def getActiveConversationByUserId_def Let_def)
qed

lemma wf_updateConversation:
  "wf_store s \<Longrightarrow> wf_store (snd (updateConversation now cid ctx s))"
proof (cases "getConversation cid s")
  case None
  assume "wf_store s"
  with None show ?thesis by (simp add: updateConversation_def)
next
  case (Some c)
  assume wf: "wf_store s"
  from Some have "c \<in> set (conversations s)" and "conv_id c = cid"
    by (auto simp: getConversation_def map_get_def find_Some_iff)
  then have "conv_id (c\<lparr>conv_context := ctx, conv_lastUpdated := now\<rparr>) \<in> conv_id ` set (conversations s)"
    by auto
  with wf Some show ?thesis
    by (simp add: updateConversation_def Let_def wf_store_ids map_key_map_set del: set_map)
qed

lemma createConversation_fresh:
  assumes "wf_store s" and "getActiveConversationByUserId u s = None"
  shows "wf_store (snd (createConversation now u ctx True s))"
    and "getActiveConversationByUserId u (snd (createConversation now u ctx True s)) =
           Some (fst (createConversation now u ctx True s))"
    and "fst (createConversation now u ctx True s) =
           \<lparr>conv_id = currentConversationId s, conv_userId = u, conv_context = ctx,
            conv_active = True, conv_lastUpdated = now, conv_createdAt = now\<rparr>"
proof -
  let ?c = "\<lparr>conv_id = currentConversationId s, conv_userId = u, conv_context = ctx,
            conv_active = True, conv_lastUpdated = now, conv_createdAt = now\<rparr>"
  from assms(1) have fresh: "conv_id ?c \<notin> conv_id ` set (conversations s)"
    by (auto simp: wf_store_ids)
  then have eq: "map_set conv_id ?c (conversations s) = conversations s @ [?c]"
    by (rule map_set_fresh)
  show "fst (createConversation now u ctx True s) = ?c"
    by (simp add: createConversation_def Let_def)
  from assms(1) fresh show "wf_store (snd (createConversation now u ctx True s))"
    by (auto simp: createConversation_def Let_def eq wf_store_ids less_Suc_eq)
  from assms(2) show "getActiveConversationByUserId u (snd (createConversation now u ctx True s)) =
           Some (fst (createConversation now u ctx True s))"
    by (simp add: createConversation_def Let_def eq getActiveConversationByUserId_def
        find_append_None)
qed

section \<open>Context manager: what each mutation stores\<close>

lemma keep_recent_length: "0 < n \<Longrightarrow> int (length (keep_recent n xs)) \<le> 2 * n"
  by (auto simp: keep_recent_def js_slice_def Let_def)

lemma keep_recent_drop:
  assumes "0 < n"
  shows "keep_recent n xs = drop (length xs - nat (2 * n)) xs"
proof (cases "int (length xs) > n * 2")
  case True
  then have "nat (int (length xs) + - n * 2) = length xs - nat (2 * n)"
    using assms by linarith
  with True assms show ?thesis by (simp add: keep_recent_def js_slice_def Let_def max_def)
next
  case False
  then have "length xs - nat (2 * n) = 0" using assms by linarith
  with False show ?thesis by (simp add: keep_recent_def)
qed

lemma addBotMessage_active:
  assumes wf: "wf_store s"
    and bs: "getBotSettings s = Some bs" "contextAwareness bs"
    and act: "getActiveConversationByUserId u s = Some c"
  shows "getActiveConversationByUserId u (addBotMessage now u content s) =
           Some (c\<lparr>conv_context :=
                     Array (keep_recent (or_default (contextSize bs) DEFAULT_CONTEXT_SIZE)
                              (window u s @
                                 [\<lparr>cm_role = Assistant, cm_content = content, cm_timestamp = now\<rparr>])),
                   conv_lastUpdated := now\<rparr>)"
proof (cases "conv_context c")
  case NotArray
  with bs act show ?thesis
    by (simp add: addBotMessage_def Let_def window_def keep_recent_def
        updateConversation_active[OF wf act])
next
  case (Array ys)
  with bs act show ?thesis
    by (simp add: addBotMessage_def Let_def window_def keep_recent_def
        updateConversation_active[OF wf act])
qed

lemma addUserMessage_active:
  assumes wf: "wf_store s"
    and bs: "getBotSettings s = Some bs" "contextAwareness bs"
  shows "\<exists>c. getActiveConversationByUserId (msg_authorId m) (addUserMessage now m s) = Some c \<and>
           conv_context c =
             Array (keep_recent (or_default (contextSize bs) DEFAULT_CONTEXT_SIZE)
                      (window (msg_authorId m) s @
                         [\<lparr>cm_role = User, cm_content = msg_content m, cm_timestamp = now\<rparr>]))"
proof (cases "getActiveConversationByUserId (msg_authorId m) s")
  case None
  let ?u = "msg_authorId m"
  let ?cr = "createConversation now ?u (Array []) True s"
  note cf = createConversation_fresh[OF wf None, of now "Array []"]
  have act1: "getActiveConversationByUserId ?u (snd ?cr) = Some (fst ?cr)" by (rule cf(2))
  have wf1: "wf_store (snd ?cr)" by (rule cf(1))
  have ctx: "conv_context (fst ?cr) = Array []" by (simp add: cf(3))
  from bs None ctx show ?thesis
    by (simp add: addUserMessage_def Let_def case_prod_beta window_def keep_recent_def
        updateConversation_active[OF wf1 act1])
next
  case (Some c)
  with bs show ?thesis
    by (cases "conv_context c")
       (simp_all add: addUserMessage_def Let_def window_def keep_recent_def
          updateConversation_active[OF wf Some])
qed

lemma wf_addUserMessage: "wf_store s \<Longrightarrow> wf_store (addUserMessage now m s)"
proof -
  assume wf: "wf_store s"
  show ?thesis
  proof (cases "getActiveConversationByUserId (msg_authorId m) s")
    case None
    from createConversation_fresh(1)[OF wf None, of now "Array []"]
    show ?thesis using wf None
      by (auto simp: addUserMessage_def Let_def case_prod_beta intro: wf_updateConversation
          split: option.splits)
  next
    case (Some c)
    with wf show ?thesis
      by (auto simp: addUserMessage_def Let_def intro: wf_updateConversation split: option.splits)
  qed
qed

lemma wf_addBotMessage: "wf_store s \<Longrightarrow> wf_store (addBotMessage now u content s)"
  by (auto simp: addBotMessage_def Let_def intro: wf_updateConversation split: option.splits)

lemma wf_updateContext: "wf_store s \<Longrightarrow> wf_store (updateContext now u n s)"
  by (auto simp: updateContext_def Let_def intro: wf_updateConversation split: option.splits jsonb.splits)

lemma window_updateContext:
  assumes wf: "wf_store s"
  shows "window u (updateContext now u n s) =
           keep_recent n (window u s)"
proof (cases "getActiveConversationByUserId u s")
  case None
  then show ?thesis by (simp add: updateContext_def window_def keep_recent_def js_slice_def)
next
  case (Some c)
  then show ?thesis
    by (cases "conv_context c")
       (simp_all add: updateContext_def window_def Let_def keep_recent_def js_slice_def
          updateConversation_active[OF wf Some])
qed

lemma window_bound_after_append:
  assumes "wf_store s" and "getBotSettings s = Some bs" and "contextAwareness bs"
    and "sz = or_default (contextSize bs) DEFAULT_CONTEXT_SIZE" and "0 < sz"
  shows "int (length (window (msg_authorId m) (addUserMessage now m s))) \<le> 2 * sz"
    and "int (length (window userId (addBotMessage now userId content s))) \<le> 2 * sz"
proof -
  from addUserMessage_active[OF assms(1-3), of m now] obtain c where
    "getActiveConversationByUserId (msg_authorId m) (addUserMessage now m s) = Some c"
    "conv_context c = Array (keep_recent sz (window (msg_authorId m) s @
        [\<lparr>cm_role = User, cm_content = msg_content m, cm_timestamp = now\<rparr>]))"
    unfolding assms(4) by blast
  then show "int (length (window (msg_authorId m) (addUserMessage now m s))) \<le> 2 * sz"
    using keep_recent_length[OF assms(5)] by (simp add: window_def)
  show "int (length (window userId (addBotMessage now userId content s))) \<le> 2 * sz"
  proof (cases "getActiveConversationByUserId userId s")
    case None
    with assms show ?thesis by (simp add: addBotMessage_def window_def)
  next
    case (Some c)
    from addBotMessage_active[OF assms(1-3) Some, of now content] keep_recent_length[OF assms(5)]
    show ?thesis by (simp add: window_def assms(4))
  qed
qed

lemma window_bound_after_resize:
  assumes "wf_store s" and "0 < n"
  shows "int (length (window userId (updateContext now userId n s))) \<le> 2 * n"
  using keep_recent_length[OF assms(2), of "window userId s"]
  by (simp add: window_updateContext[OF assms(1)])

lemma addBotMessage_appends:
  assumes "wf_store s" and "getBotSettings s = Some bs" and "contextAwareness bs"
    and "0 < or_default (contextSize bs) DEFAULT_CONTEXT_SIZE"
    and "getActiveConversationByUserId userId s = Some c"
  shows "getActiveConversationByUserId userId (addBotMessage now userId content s) =
           Some (c\<lparr>conv_context :=
                     Array (drop (length (window userId s) + 1 -
                                  nat (2 * or_default (contextSize bs) DEFAULT_CONTEXT_SIZE))
                              (window userId s @
                                 [\<lparr>cm_role = Assistant, cm_content = content, cm_timestamp = now\<rparr>])),
                   conv_lastUpdated := now\<rparr>)"
    and "last (window userId (addBotMessage now userId content s)) =
           \<lparr>cm_role = Assistant, cm_content = content, cm_timestamp = now\<rparr>"
proof -
  let ?sz = "or_default (contextSize bs) DEFAULT_CONTEXT_SIZE"
  let ?turns = "window userId s @ [\<lparr>cm_role = Assistant, cm_content = content, cm_timestamp = now\<rparr>]"
  let ?kept = "drop (length (window userId s) + 1 - nat (2 * ?sz)) ?turns"
  have k: "keep_recent ?sz ?turns = ?kept"
    using keep_recent_drop[OF assms(4), of ?turns] by simp
  show a: "getActiveConversationByUserId userId (addBotMessage now userId content s) =
        Some (c\<lparr>conv_context := Array ?kept, conv_lastUpdated := now\<rparr>)"
    using addBotMessage_active[OF assms(1-3) assms(5), of now content] by (simp only: k)
  have "length (window userId s) + 1 - nat (2 * ?sz) < length ?turns" using assms(4) by simp
  then have "last ?kept = last ?turns" by (rule last_drop)
  with a show "last (window userId (addBotMessage now userId content s)) =
           \<lparr>cm_role = Assistant, cm_content = content, cm_timestamp = now\<rparr>"
    by (simp add: window_def)
qed

lemma getBotSettings_updateConversation:
  "getBotSettings (snd (updateConversation now cid ctx s)) = getBotSettings s"
  by (simp add: updateConversation_def getBotSettings_def Let_def split: option.splits)

lemma getBotSettings_addUserMessage:
  "getBotSettings (addUserMessage now m s) = getBotSettings s"
  by (auto simp: addUserMessage_def Let_def split_beta getBotSettings_updateConversation
      split: option.splits)
     (simp_all add: getBotSettings_def createConversation_def Let_def)

lemma getContext_after_addUserMessage:
  assumes "wf_store s"
  shows "snd (getContext now (msg_authorId m) (addUserMessage now m s)) = addUserMessage now m s"
proof (cases "getBotSettings s")
  case None
  then show ?thesis by (simp add: getContext_def addUserMessage_def)
next
  case (Some bs)
  show ?thesis
  proof (cases "contextAwareness bs")
    case False
    with Some show ?thesis by (simp add: getContext_def addUserMessage_def)
  next
    case True
    from addUserMessage_active[OF assms Some True, of m now] obtain c where
      "getActiveConversationByUserId (msg_authorId m) (addUserMessage now m s) = Some c" by blast
    with Some True show ?thesis
      by (simp add: getContext_def getBotSettings_addUserMessage Let_def)
  qed
qed

lemma wf_updateBotSettings: "wf_store s \<Longrightarrow> wf_store (updateBotSettings f s)"
  by (simp add: updateBotSettings_def wf_store_def split: option.splits)

lemma wf_ctx_step: "wf_store s \<Longrightarrow> wf_store (ctx_step op s)"
  by (cases op) (simp_all add: wf_addUserMessage wf_addBotMessage wf_updateContext
      wf_updateBotSettings)

lemma wf_ctx_run: "wf_store s \<Longrightarrow> wf_store (ctx_run ops s)"
  unfolding ctx_run_def by (induction ops arbitrary: s) (simp_all add: wf_ctx_step)

lemma window_bound_step:
  assumes "wf_store s" and "size_in_effect op s = Some (userId, n)" and "0 < n"
  shows "int (length (window userId (ctx_step op s))) \<le> 2 * n"
proof (cases op)
  case (AppendUser now message)
  with assms(2) obtain bs where bs: "getBotSettings s = Some bs" "contextAwareness bs"
      "n = or_default (contextSize bs) DEFAULT_CONTEXT_SIZE" "userId = msg_authorId message"
    by (auto simp: append_size_def split: option.splits if_splits)
  from window_bound_after_append(1)[OF assms(1) bs(1,2,3) assms(3), of message now]
  show ?thesis by (simp add: AppendUser bs(4))
next
  case (AppendAssistant now u content)
  with assms(2) obtain bs where bs: "getBotSettings s = Some bs" "contextAwareness bs"
      "n = or_default (contextSize bs) DEFAULT_CONTEXT_SIZE" "userId = u"
    by (auto simp: append_size_def split: option.splits if_splits)
  from window_bound_after_append(2)[OF assms(1) bs(1,2,3) assms(3), of u now content]
  show ?thesis by (simp add: AppendAssistant bs(4))
next
  case (Resize now u m)
  with assms(2) have "userId = u" "n = m" by simp_all
  with window_bound_after_resize[OF assms(1) assms(3), of userId now] Resize
  show ?thesis by simp
next
  case (ChangeSettings f)
  with assms(2) show ?thesis by simp
qed

section \<open>Claims about the context manager\<close>

text \<open>
  C8. If \<open>contextAwareness\<close> is false (or no settings exist, which the code treats
  alike), \<open>getContext\<close> returns the empty sequence and the store it leaves is the store
  it was given, so no conversation is created or touched; \<open>addUserMessage\<close> and
  \<open>addBotMessage\<close> return the store unchanged.
\<close>

theorem C8_context_disabled_is_noop:
  assumes "\<forall>bs. getBotSettings s = Some bs \<longrightarrow> \<not> contextAwareness bs"
  shows "getContext now userId s = ([], s) \<and>
         addUserMessage now message s = s \<and>
         addBotMessage now userId content s = s"
  using assms
  by (cases "getBotSettings s") (simp_all add: getContext_def addUserMessage_def addBotMessage_def)

theorem C8_context_disabled_witness:
  "getContext 7 ''42'' (oneTurnStorage\<lparr>botSettings := Some (defaultSettings\<lparr>contextAwareness := False\<rparr>)\<rparr>)
     = ([], oneTurnStorage\<lparr>botSettings := Some (defaultSettings\<lparr>contextAwareness := False\<rparr>)\<rparr>) \<and>
   addUserMessage 7 dmHello (oneTurnStorage\<lparr>botSettings := Some (defaultSettings\<lparr>contextAwareness := False\<rparr>)\<rparr>)
     = oneTurnStorage\<lparr>botSettings := Some (defaultSettings\<lparr>contextAwareness := False\<rparr>)\<rparr> \<and>
   addBotMessage 7 ''42'' ''hi'' (oneTurnStorage\<lparr>botSettings := Some (defaultSettings\<lparr>contextAwareness := False\<rparr>)\<rparr>)
     = oneTurnStorage\<lparr>botSettings := Some (defaultSettings\<lparr>contextAwareness := False\<rparr>)\<rparr>"
  using C8_context_disabled_is_noop
    [where s = "oneTurnStorage\<lparr>botSettings := Some (defaultSettings\<lparr>contextAwareness := False\<rparr>)\<rparr>"
       and now = 7 and userId = "''42''" and message = dmHello and content = "''hi''"]
  by (simp add: getBotSettings_def oneTurnStorage_def initialStorage_def defaultSettings_def)

text \<open>
  C9, as stated, fails: on the freshly built store, with context awareness on and no
  conversation for user 42, \<open>addBotMessage\<close> creates nothing and leaves the store as it
  was. The source returns early there, with the remark that the user turn should have
  been added first.
\<close>

theorem C9_no_lazy_creation_counterexample:
  "getBotSettings initialStorage = Some defaultSettings \<and> contextAwareness defaultSettings \<and>
   getActiveConversationByUserId ''42'' initialStorage = None \<and>
   addBotMessage 1 ''42'' ''hi'' initialStorage = initialStorage \<and>
   getActiveConversationByUserId ''42'' (addBotMessage 1 ''42'' ''hi'' initialStorage) = None"
  by (simp add: addBotMessage_def getBotSettings_def initialStorage_def defaultSettings_def
      getActiveConversationByUserId_def)

text \<open>
  C9, amended. With context awareness on and a positive context size \<open>sz\<close> (the
  setting, or 5 when it is unset or 0): if the user has an active conversation,
  \<open>addBotMessage\<close> appends an assistant turn with the current time and the given
  content, keeps the most recent \<open>2 * sz\<close> turns and stores them in that same
  conversation, so the last stored turn is the assistant's; if the user has no active
  conversation, it is a no-op and creates none.
\<close>

theorem C9_appendAssistant_needs_conversation:
  assumes "wf_store s" and "getBotSettings s = Some bs" and "contextAwareness bs"
    and "sz = or_default (contextSize bs) DEFAULT_CONTEXT_SIZE" and "0 < sz"
  shows "case getActiveConversationByUserId userId s of
           None \<Rightarrow> addBotMessage now userId content s = s
         | Some c \<Rightarrow>
             (let turns = window userId s @
                    [\<lparr>cm_role = Assistant, cm_content = content, cm_timestamp = now\<rparr>];
                  kept = drop (length turns - nat (2 * sz)) turns
              in getActiveConversationByUserId userId (addBotMessage now userId content s) =
                   Some (c\<lparr>conv_context := Array kept, conv_lastUpdated := now\<rparr>) \<and>
                 window userId (addBotMessage now userId content s) = kept \<and>
                 last kept = \<lparr>cm_role = Assistant, cm_content = content, cm_timestamp = now\<rparr>)"
proof (cases "getActiveConversationByUserId userId s")
  case None
  with assms show ?thesis by (simp add: addBotMessage_def)
next
  case (Some c)
  let ?turns = "window userId s @ [\<lparr>cm_role = Assistant, cm_content = content, cm_timestamp = now\<rparr>]"
  let ?kept = "drop (length ?turns - nat (2 * sz)) ?turns"
  have a: "getActiveConversationByUserId userId (addBotMessage now userId content s) =
        Some (c\<lparr>conv_context := Array ?kept, conv_lastUpdated := now\<rparr>)"
    using addBotMessage_active[OF assms(1-3) Some, of now content] keep_recent_drop[OF assms(5), of ?turns]
    by (simp only: assms(4))
  then have b: "window userId (addBotMessage now userId content s) = ?kept"
    by (simp add: window_def)
  have "length ?turns - nat (2 * sz) < length ?turns" using assms(5) by simp
  then have l: "last ?kept = last ?turns"
    by (rule last_drop)
  have "last ?turns = \<lparr>cm_role = Assistant, cm_content = content, cm_timestamp = now\<rparr>" by simp
  with a b l Some show ?thesis by (simp add: Let_def)
qed


theorem C9_appendAssistant_witness:
  "window ''42'' (addBotMessage 9 ''42'' ''hi'' oneTurnStorage) =
     [oneTurn, \<lparr>cm_role = Assistant, cm_content = ''hi'', cm_timestamp = 9\<rparr>]"
proof -
  have h1: "wf_store oneTurnStorage"
    by (simp add: wf_store_def oneTurnStorage_def initialStorage_def)
  have h2: "getBotSettings oneTurnStorage = Some defaultSettings"
    by (simp add: getBotSettings_def oneTurnStorage_def initialStorage_def)
  have h3: "contextAwareness defaultSettings" by (simp add: defaultSettings_def)
  have h4: "5 = or_default (contextSize defaultSettings) DEFAULT_CONTEXT_SIZE"
    by (simp add: defaultSettings_def or_default_def)
  have h5: "(0::int) < 5" by simp
  have a: "getActiveConversationByUserId ''42'' oneTurnStorage =
             Some \<lparr>conv_id = 1, conv_userId = ''42'', conv_context = Array [oneTurn],
                   conv_active = True, conv_lastUpdated = 1, conv_createdAt = 1\<rparr>"
    by (simp add: getActiveConversationByUserId_def oneTurnStorage_def initialStorage_def)
  have w: "window ''42'' oneTurnStorage = [oneTurn]" by (simp add: window_def a)
  from C9_appendAssistant_needs_conversation[OF h1 h2 h3 h4 h5, where userId = "''42''" and now = 9 and content = "''hi''"]
  show ?thesis by (simp add: a w Let_def)
qed

text \<open>
  C2, as stated, fails at size 0. With the \<open>contextSize\<close> setting at 0 an append
  falls back to the default size (\<open>contextSize || DEFAULT_CONTEXT_SIZE\<close>) and a
  first message leaves a window of one turn, more than \<open>2 * 0\<close>. A resize to the new
  size 0 of a window of one turn passes the guard \<open>1 > 0\<close> and stores
  \<open>slice(-0)\<close>, which is the whole array: the window still holds one turn.
\<close>

theorem C2_bound_fails_at_size_zero:
  "getBotSettings zeroSizeStorage = Some (defaultSettings\<lparr>contextSize := Some 0\<rparr>) \<and>
   window ''42'' (addUserMessage 1 dmHello zeroSizeStorage) =
     [\<lparr>cm_role = User, cm_content = ''hello'', cm_timestamp = 1\<rparr>] \<and>
   \<not> int (length (window ''42'' (addUserMessage 1 dmHello zeroSizeStorage))) \<le> 2 * 0 \<and>
   window ''42'' oneTurnStorage = [oneTurn] \<and>
   window ''42'' (updateContext 5 ''42'' 0 oneTurnStorage) = [oneTurn] \<and>
   \<not> int (length (window ''42'' (updateContext 5 ''42'' 0 oneTurnStorage))) \<le> 2 * 0"
  by (simp add: updateContext_def updateConversation_def getConversation_def map_get_def
      getActiveConversationByUserId_def window_def oneTurnStorage_def initialStorage_def
      zeroSizeStorage_def updateBotSettings_def getBotSettings_def defaultSettings_def
      addUserMessage_def createConversation_def dmHello_def or_default_def
      DEFAULT_CONTEXT_SIZE_def js_slice_def Let_def)

text \<open>
  C2, amended. Start from a store whose conversation ids are distinct and below the id
  counter, and run any sequence of appends, resizes and settings changes. After a
  further append made with context awareness on, the user's stored window holds at most
  \<open>2 * n\<close> turns, where \<open>n\<close> is the \<open>contextSize\<close> setting then in effect, or the
  default 5 when that setting is unset or 0, provided \<open>n\<close> is positive; after a
  further resize to a positive new size \<open>n\<close> it holds at most \<open>2 * n\<close> turns.
\<close>

theorem C2_window_bound_positive_size:
  assumes "wf_store s" and "size_in_effect op (ctx_run ops s) = Some (userId, n)" and "0 < n"
  shows "int (length (window userId (ctx_step op (ctx_run ops s)))) \<le> 2 * n"
  using window_bound_step[OF wf_ctx_run[OF assms(1)] assms(2) assms(3)] .

theorem C2_window_bound_witness:
  "int (length (window ''42''
     (ctx_step (Resize 9 ''42'' 1)
        (ctx_run [AppendUser 2 dmHello, AppendAssistant 3 ''42'' ''Hi!'', AppendUser 4 dmHello]
           oneTurnStorage)))) \<le> 2 * 1 \<and>
   int (length (window ''42''
     (ctx_step (AppendUser 2 dmHello) (ctx_run [] oneTurnStorage)))) \<le> 2 * 5"
proof -
  have h1: "wf_store oneTurnStorage"
    by (simp add: wf_store_def oneTurnStorage_def initialStorage_def)
  have h2: "size_in_effect (Resize 9 ''42'' 1)
              (ctx_run [AppendUser 2 dmHello, AppendAssistant 3 ''42'' ''Hi!'', AppendUser 4 dmHello]
                 oneTurnStorage) = Some (''42'', 1)" by simp
  have h3: "(0::int) < 1" by simp
  have h4: "size_in_effect (AppendUser 2 dmHello) (ctx_run [] oneTurnStorage) = Some (''42'', 5)"
    by (simp add: ctx_run_def append_size_def getBotSettings_def oneTurnStorage_def
        initialStorage_def defaultSettings_def or_default_def dmHello_def)
  have h5: "(0::int) < 5" by simp
  from C2_window_bound_positive_size[OF h1 h2 h3] C2_window_bound_positive_size[OF h1 h4 h5]
  show ?thesis by blast
qed

section \<open>Moderation: what the classifier decides and does\<close>

lemma fold_max_gt: "fold max ys (x::real) > t \<longleftrightarrow> (x > t \<or> (\<exists>y\<in>set ys. y > t))"
  by (induction ys arbitrary: x) (auto simp: max_def)

lemma exceeds_Math_max: "exceeds (Math_max xs) t \<longleftrightarrow> (\<exists>x\<in>set xs. x > t)"
  by (cases xs) (auto simp: exceeds_def Math_max_def fold_max_gt)

lemma map_set_member: "v \<in> set (map_set key v xs)"
  by (induction xs) auto

lemma executeModerationAction_effects:
  "\<exists>effects. executeModerationAction e message act reason w = w\<lparr>trace := trace w @ effects\<rparr> \<and>
             (\<forall>ev\<in>set effects. is_side_effect (fst ev))"
proof (cases act)
  case ANone
  then have "executeModerationAction e message act reason w = w\<lparr>trace := trace w @ []\<rparr>"
    by (simp add: executeModerationAction_def)
  then show ?thesis by fastforce
next
  case Warn
  then have "executeModerationAction e message act reason w =
      w\<lparr>trace := trace w @ [(Delete, delete_ok e),
         (AuthorSend (''Warning: Your message was removed. '' @ reason), send_ok e)]\<rparr>"
    by (simp add: executeModerationAction_def log_call_def)
  moreover have "\<forall>ev\<in>set [(Delete, delete_ok e),
         (AuthorSend (''Warning: Your message was removed. '' @ reason), send_ok e)]. is_side_effect (fst ev)"
    by (simp add: is_side_effect_def)
  ultimately show ?thesis by blast
next
  case Mute
  let ?full = "[(Delete, delete_ok e), (Timeout (10 * 60 * 1000) reason, timeout_ok e),
         (AuthorSend (''You have been temporarily muted. '' @ reason), send_ok e)]"
  have "executeModerationAction e message act reason w =
      w\<lparr>trace := trace w @ (if msg_inGuild message then (if timeout_ok e then ?full else butlast ?full) else [(Delete, delete_ok e)])\<rparr>"
    using Mute by (simp add: executeModerationAction_def log_call_def)
  moreover have "\<forall>ev\<in>set (if msg_inGuild message then (if timeout_ok e then ?full else butlast ?full) else [(Delete, delete_ok e)]). is_side_effect (fst ev)"
    by (simp add: is_side_effect_def)
  ultimately show ?thesis by blast
next
  case Kick
  have "executeModerationAction e message act reason w =
      w\<lparr>trace := trace w @ (if msg_inGuild message then [(Delete, delete_ok e), (MemberKick reason, kick_ok e)] else [(Delete, delete_ok e)])\<rparr>"
    using Kick by (simp add: executeModerationAction_def log_call_def)
  moreover have "\<forall>ev\<in>set (if msg_inGuild message then [(Delete, delete_ok e), (MemberKick reason, kick_ok e)] else [(Delete, delete_ok e)]). is_side_effect (fst ev)"
    by (simp add: is_side_effect_def)
  ultimately show ?thesis by blast
next
  case Ban
  have "executeModerationAction e message act reason w =
      w\<lparr>trace := trace w @ (if msg_inGuild message then [(Delete, delete_ok e), (GuildBan (msg_authorId message) reason, ban_ok e)] else [(Delete, delete_ok e)])\<rparr>"
    using Ban by (simp add: executeModerationAction_def log_call_def)
  moreover have "\<forall>ev\<in>set (if msg_inGuild message then [(Delete, delete_ok e), (GuildBan (msg_authorId message) reason, ban_ok e)] else [(Delete, delete_ok e)]). is_side_effect (fst ev)"
    by (simp add: is_side_effect_def)
  ultimately show ?thesis by blast
qed

text \<open>The classifier on the first result of the scorer, as one expression.\<close>

lemma moderateMessage_try_scored:
  assumes "getBotSettings (storage w) = Some bs" and "autoModeration bs"
    and "truthy (trim (msg_content message))" and "scorer e = ScorerReturns (r # rest)"
  shows "moderateMessage_try now e message w =
     (let flaggedCategories = map fst (filter snd (categories r));
          maxScore = Math_max (map snd (category_scores r));
          hasHighSeverity = list_ex (\<lambda>category. category \<in> set highSeverityCategories) flaggedCategories;
          decided = (if \<not> flagged r then None
                     else if hasHighSeverity \<or> exceeds maxScore 0.9 then Some Mute
                     else if exceeds maxScore 0.7 then Some Warn else None)
      in case decided of
           None \<Rightarrow> (Inr no_action, w)
         | Some act \<Rightarrow>
             (let reason = ''Message contained inappropriate content: '' @ join '', '' flaggedCategories;
                  s1 = snd (createModerationAction now (msg_authorId message) act reason (storage w));
                  w1 = log_call (RecordModeration (msg_authorId message) act reason) True (w\<lparr>storage := s1\<rparr>)
              in (Inr \<lparr>mr_action = act, mr_reason = Some reason\<rparr>,
                  executeModerationAction e message act reason w1)))"
  using assms by (simp add: moderateMessage_try_def Let_def)

lemma moderateMessage_none_unchanged:
  "mr_action (fst (moderateMessage now e message w)) = ANone \<Longrightarrow>
   snd (moderateMessage now e message w) = w"
  by (auto simp: moderateMessage_def moderateMessage_try_def Let_def no_action_def
      split: option.splits if_splits scorer_outcome.splits list.splits)

text \<open>
  A message that \<open>trim\<close> empties is not sent to the scorer: here the content is a
  no-break space and a tab, and the scorer would have flagged a high-severity category.
\<close>

lemma blank_content_is_not_scored:
  "moderateMessage 0 failingEnv (guildMention\<lparr>msg_content := [CHR 0xA0, CHR 0x09]\<rparr>) liveWorld =
     (no_action, liveWorld)"
  by (simp add: moderateMessage_def moderateMessage_try_def liveWorld_def initialStorage_def
      getBotSettings_def defaultSettings_def trim_def truthy_def isWhitespace_def)

section \<open>Claims about the moderation classifier\<close>

text \<open>
  C3, as stated, fails. The scorer flags one category, which scores 0.65, and reports
  0.75 for a category it does not flag; no flagged category is high-severity. With
  \<open>maxScore\<close> taken over the flagged categories the policy gives \<open>none\<close>
  (\<open>spec_classify\<close>); the code takes \<open>Math.max\<close> over all of \<open>category_scores\<close>,
  returns \<open>warn\<close> and writes a record.
\<close>

theorem C3_max_over_flagged_counterexample:
  "mr_action (fst (moderateMessage 0 (calmEnv\<lparr>scorer := ScorerReturns [mixedScores]\<rparr>) dmHello liveWorld)) = Warn \<and>
   moderationActions (storage (snd (moderateMessage 0 (calmEnv\<lparr>scorer := ScorerReturns [mixedScores]\<rparr>) dmHello liveWorld))) \<noteq> [] \<and>
   spec_classify mixedScores = ANone"
  by (simp add: moderateMessage_def moderateMessage_try_def liveWorld_def initialStorage_def
      getBotSettings_def defaultSettings_def dmHello_def calmEnv_def mixedScores_def trim_def
      truthy_def isWhitespace_def Math_max_def exceeds_def highSeverityCategories_def Let_def
      createModerationAction_def executeModerationAction_def log_call_def spec_classify_def)

text \<open>
  C3, amended. With moderation enabled, content that \<open>trim()\<close> does not empty and a
  scorer that returned a result: if the result's overall flagged bit is false the classifier returns
  \<open>none\<close>; otherwise, with \<open>maxScore\<close> the maximum over the scores of all categories
  (flagged or not), it returns \<open>mute\<close> if some flagged category is high-severity or
  \<open>maxScore > 0.9\<close>, else \<open>warn\<close> if \<open>maxScore > 0.7\<close>, else \<open>none\<close>. Whenever it
  returns \<open>none\<close> the world is left as it was: no record, no call.
\<close>

theorem C3_classifier_policy:
  assumes "getBotSettings (storage w) = Some bs" and "autoModeration bs"
    and "truthy (trim (msg_content message))" and "scorer e = ScorerReturns (r # rest)"
  shows "mr_action (fst (moderateMessage now e message w)) =
           (if \<not> flagged r then ANone
            else if (\<exists>c. (c, True) \<in> set (categories r) \<and> c \<in> set highSeverityCategories)
                    \<or> (\<exists>x \<in> set (category_scores r). snd x > 0.9) then Mute
            else if (\<exists>x \<in> set (category_scores r). snd x > 0.7) then Warn
            else ANone) \<and>
         (mr_action (fst (moderateMessage now e message w)) = ANone \<longrightarrow>
            snd (moderateMessage now e message w) = w)"
proof -
  have high: "list_ex (\<lambda>category. category \<in> set highSeverityCategories)
                (map fst (filter snd (categories r))) \<longleftrightarrow>
              (\<exists>c. (c, True) \<in> set (categories r) \<and> c \<in> set highSeverityCategories)"
    by (force simp: list_ex_iff)
  have above: "exceeds (Math_max (map snd (category_scores r))) t \<longleftrightarrow>
               (\<exists>x \<in> set (category_scores r). snd x > t)" for t
    by (simp add: exceeds_Math_max)
  show ?thesis
    unfolding moderateMessage_def moderateMessage_try_scored[OF assms]
    by (auto simp: Let_def high above no_action_def)
qed

theorem C3_classifier_policy_witness:
  "mr_action (fst (moderateMessage 0 (calmEnv\<lparr>scorer := ScorerReturns [mixedScores]\<rparr>) dmHello liveWorld)) = Warn"
proof -
  have h1: "getBotSettings (storage liveWorld) = Some defaultSettings"
    by (simp add: getBotSettings_def liveWorld_def initialStorage_def)
  have h2: "autoModeration defaultSettings" by (simp add: defaultSettings_def)
  have h3: "truthy (trim (msg_content dmHello))"
    by (simp add: dmHello_def trim_def truthy_def isWhitespace_def)
  have h4: "scorer (calmEnv\<lparr>scorer := ScorerReturns [mixedScores]\<rparr>) = ScorerReturns (mixedScores # [])"
    by simp
  from C3_classifier_policy[OF h1 h2 h3 h4, of 0]
  show ?thesis by (simp add: mixedScores_def highSeverityCategories_def)
qed

text \<open>
  C5. Whenever \<open>moderateMessage\<close> decides \<open>warn\<close> or \<open>mute\<close>, whatever the outcomes
  of the gateway calls: the store it leaves is the given store with the moderation
  record added (nothing later removes or replaces it), and the calls it made are the
  write of that record first, followed only by side effects (delete, private notice,
  timeout), each of which may have failed.
\<close>

theorem C5_record_before_effects:
  assumes "moderateMessage now e message w = (result, w')"
    and "mr_action result = Warn \<or> mr_action result = Mute"
  shows "\<exists>reason effects.
           mr_reason result = Some reason \<and>
           storage w' = snd (createModerationAction now (msg_authorId message) (mr_action result)
                               reason (storage w)) \<and>
           \<lparr>ma_id = currentModerationActionId (storage w), ma_userId = msg_authorId message,
            ma_type = mr_action result, ma_reason = reason, ma_createdAt = now\<rparr>
             \<in> set (moderationActions (storage w')) \<and>
           trace w' = trace w @
             (RecordModeration (msg_authorId message) (mr_action result) reason, True) # effects \<and>
           (\<forall>ev \<in> set effects. is_side_effect (fst ev))"
proof -
  from assms obtain act reason where
    res: "result = \<lparr>mr_action = act, mr_reason = Some reason\<rparr>" and
    w': "w' = executeModerationAction e message act reason
               (log_call (RecordModeration (msg_authorId message) act reason) True
                  (w\<lparr>storage := snd (createModerationAction now (msg_authorId message) act reason
                                       (storage w))\<rparr>))"
    by (auto simp: moderateMessage_def moderateMessage_try_def Let_def no_action_def
        split: option.splits if_splits scorer_outcome.splits list.splits)
  let ?w1 = "log_call (RecordModeration (msg_authorId message) act reason) True
                  (w\<lparr>storage := snd (createModerationAction now (msg_authorId message) act reason
                                       (storage w))\<rparr>)"
  from executeModerationAction_effects[of e message act reason ?w1] obtain effects where
    ex: "executeModerationAction e message act reason ?w1 = ?w1\<lparr>trace := trace ?w1 @ effects\<rparr>"
    and se: "\<forall>ev \<in> set effects. is_side_effect (fst ev)" by blast
  have st: "storage w' = snd (createModerationAction now (msg_authorId message) act reason (storage w))"
    by (simp only: w' ex) (simp add: log_call_def)
  have tr: "trace w' = trace w @ (RecordModeration (msg_authorId message) act reason, True) # effects"
    by (simp only: w' ex) (simp add: log_call_def)
  have mem: "\<lparr>ma_id = currentModerationActionId (storage w), ma_userId = msg_authorId message,
            ma_type = act, ma_reason = reason, ma_createdAt = now\<rparr>
             \<in> set (moderationActions (storage w'))"
    by (simp add: st createModerationAction_def Let_def map_set_member)
  from res st tr mem se show ?thesis by auto
qed

theorem C5_record_before_effects_witness:
  "\<lparr>ma_id = 1, ma_userId = ''42'', ma_type = Mute,
    ma_reason = ''Message contained inappropriate content: hate/threatening'', ma_createdAt = 8\<rparr>
     \<in> set (moderationActions (storage (snd (moderateMessage 8 failingEnv guildMention liveWorld)))) \<and>
   trace (snd (moderateMessage 8 failingEnv guildMention liveWorld)) =
     [(RecordModeration ''42'' Mute ''Message contained inappropriate content: hate/threatening'', True),
      (Delete, False),
      (Timeout 600000 ''Message contained inappropriate content: hate/threatening'', False)]"
proof -
  have ev: "moderateMessage 8 failingEnv guildMention liveWorld =
      (\<lparr>mr_action = Mute, mr_reason = Some ''Message contained inappropriate content: hate/threatening''\<rparr>,
       snd (moderateMessage 8 failingEnv guildMention liveWorld))"
    by (simp add: moderateMessage_def moderateMessage_try_def liveWorld_def initialStorage_def
      getBotSettings_def defaultSettings_def guildMention_def failingEnv_def calmEnv_def
      severeScores_def trim_def truthy_def isWhitespace_def Math_max_def exceeds_def
      highSeverityCategories_def Let_def)
  have tr: "trace (snd (moderateMessage 8 failingEnv guildMention liveWorld)) =
     [(RecordModeration ''42'' Mute ''Message contained inappropriate content: hate/threatening'', True),
      (Delete, False),
      (Timeout 600000 ''Message contained inappropriate content: hate/threatening'', False)]"
    by (simp add: moderateMessage_def moderateMessage_try_def liveWorld_def initialStorage_def
      getBotSettings_def defaultSettings_def guildMention_def failingEnv_def calmEnv_def
      severeScores_def trim_def truthy_def isWhitespace_def Math_max_def exceeds_def
      highSeverityCategories_def Let_def createModerationAction_def executeModerationAction_def
      log_call_def)
  have cur: "currentModerationActionId (storage liveWorld) = 1"
    by (simp add: liveWorld_def initialStorage_def)
  have au: "msg_authorId guildMention = ''42''" by (simp add: guildMention_def)
  from C5_record_before_effects[OF ev] show ?thesis
    by (auto simp: cur au tr)
qed

text \<open>
  C10. \<open>moderateMessage\<close> returns a result on every input. When its \<open>try\<close> block
  throws, the world is the one it was given and the result is \<open>none\<close>; a scorer
  call that throws, and a response with no result in it, are such cases; and a message
  the scorer does not flag ends the same way: \<open>none\<close>, world unchanged.
\<close>

theorem C10_moderation_never_throws:
  "(case moderateMessage_try now e message w of
      (Inl err, w') \<Rightarrow> w' = w \<and> moderateMessage now e message w = (no_action, w)
    | (Inr result, w') \<Rightarrow> moderateMessage now e message w = (result, w')) \<and>
   (scorer e = ScorerThrows \<or> scorer e = ScorerReturns [] \<longrightarrow>
      moderateMessage now e message w = (no_action, w)) \<and>
   (\<not> flagged r \<longrightarrow>
      moderateMessage now (e\<lparr>scorer := ScorerReturns (r # rest)\<rparr>) message w = (no_action, w))"
  by (auto simp: moderateMessage_def moderateMessage_try_def Let_def
      split: option.splits if_splits scorer_outcome.splits list.splits sum.splits)

theorem C10_moderation_never_throws_witness:
  "moderateMessage 0 (calmEnv\<lparr>scorer := ScorerThrows\<rparr>) dmHello liveWorld = (no_action, liveWorld) \<and>
   moderateMessage 0 (calmEnv\<lparr>scorer := ScorerReturns []\<rparr>) dmHello liveWorld = (no_action, liveWorld) \<and>
   moderateMessage 0 (calmEnv\<lparr>scorer := ScorerReturns [unflaggedScores]\<rparr>) dmHello liveWorld =
     (no_action, liveWorld)"
  using C10_moderation_never_throws
          [where e = "calmEnv\<lparr>scorer := ScorerThrows\<rparr>" and now = 0 and message = dmHello
             and w = liveWorld and r = unflaggedScores and rest = "[]"]
        C10_moderation_never_throws
          [where e = "calmEnv\<lparr>scorer := ScorerReturns []\<rparr>" and now = 0 and message = dmHello
             and w = liveWorld and r = unflaggedScores and rest = "[]"]
  by (simp add: unflaggedScores_def)

section \<open>Responder: state, history and store after a call\<close>


lemma processNaturalLanguage_useOpenAI:
  "useOpenAI (processNaturalLanguage now e message w) \<longleftrightarrow>
     useOpenAI w \<and> (\<forall>err. completion_text (backend e) = Inl err \<longrightarrow> \<not> is_limit_error err)"
  by (auto simp: processNaturalLanguage_def Let_def split_beta log_call_def split: sum.splits)






lemma processNaturalLanguage_trace:
  "\<exists>model messages temp maxTok.
     trace (processNaturalLanguage now e message w) =
       trace w @
       (if useOpenAI w
        then [(ChatCompletion model messages temp maxTok, \<not> isl (completion_text (backend e)))]
        else []) @
       [(Reply (nlp_answer e (msg_content message) w), reply_ok e)] @
       (if reply_ok e then [] else [(Reply NLP_APOLOGY, apology_ok e)])"
  by (auto simp: processNaturalLanguage_def nlp_answer_def Let_def split_beta log_call_def
      split: sum.splits)

lemma processNaturalLanguage_storage:
  "storage (processNaturalLanguage now e message w) =
     (let s2 = snd (getContext now (msg_authorId message) (addUserMessage now message (storage w)))
      in if reply_ok e
         then addBotMessage now (msg_authorId message) (nlp_answer e (msg_content message) w) s2
         else s2)"
  by (auto simp: processNaturalLanguage_def nlp_answer_def Let_def split_beta log_call_def
      split: sum.splits)






lemma respond_appends_assistant_turn:
  assumes "wf_store (storage w)" and "getBotSettings (storage w) = Some bs"
    and "contextAwareness bs" and "0 < or_default (contextSize bs) DEFAULT_CONTEXT_SIZE"
    and "reply_ok e"
  shows "last (window (msg_authorId message) (storage (processNaturalLanguage now e message w))) =
           \<lparr>cm_role = Assistant, cm_content = nlp_answer e (msg_content message) w,
            cm_timestamp = now\<rparr>"
proof -
  let ?s1 = "addUserMessage now message (storage w)"
  have wf1: "wf_store ?s1" using assms(1) by (rule wf_addUserMessage)
  have bs1: "getBotSettings ?s1 = Some bs" by (simp add: getBotSettings_addUserMessage assms(2))
  from addUserMessage_active[OF assms(1-3), of message now] obtain c where
    act: "getActiveConversationByUserId (msg_authorId message) ?s1 = Some c" by blast
  have st: "storage (processNaturalLanguage now e message w) =
          addBotMessage now (msg_authorId message) (nlp_answer e (msg_content message) w) ?s1"
    by (simp add: processNaturalLanguage_storage getContext_after_addUserMessage[OF assms(1)]
        assms(5))
  show ?thesis
    unfolding st by (rule addBotMessage_appends(2)[OF wf1 bs1 assms(3) assms(4) act])
qed

section \<open>Claims about the responder\<close>




text \<open>
  C6, as stated, fails. The responder is live, the backend call fails with a timeout,
  which is neither a quota nor a rate-limit error. The reply is the keyword fallback for
  \<open>hello\<close>, not the apology, and it is appended to the user's window as an assistant
  turn.
\<close>

theorem C6_transient_failure_counterexample:
  "useOpenAI liveWorld \<and>
   completion_text (backend transientEnv) = Inl ''Error: connect ETIMEDOUT'' \<and>
   \<not> is_limit_error ''Error: connect ETIMEDOUT'' \<and>
   trace (processNaturalLanguage 3 transientEnv dmHello liveWorld) =
     [(ChatCompletion ''gpt-4o'' [(System, SYSTEM_PROMPT), (User, ''hello'')] ''0.7'' 150, False),
      (Reply ''Hello there! I'm your AI assistant bot. How can I help you today?'', True)] \<and>
   window ''42'' (storage (processNaturalLanguage 3 transientEnv dmHello liveWorld)) =
     [\<lparr>cm_role = User, cm_content = ''hello'', cm_timestamp = 3\<rparr>,
      \<lparr>cm_role = Assistant,
       cm_content = ''Hello there! I'm your AI assistant bot. How can I help you today?'',
       cm_timestamp = 3\<rparr>]"
  by (simp add: processNaturalLanguage_def transientEnv_def calmEnv_def liveWorld_def
      initialStorage_def defaultSettings_def dmHello_def completion_text_def completion_or_def is_limit_error_def
      addUserMessage_def getContext_def addBotMessage_def getBotSettings_def
      getActiveConversationByUserId_def createConversation_def updateConversation_def
      getConversation_def map_get_def or_default_def DEFAULT_CONTEXT_SIZE_def js_slice_def
      str_or_def truthy_def formatContextForNLP_def log_call_def getFallbackResponse_def
      toLowerCase_def toLower_def window_def Let_def)

text \<open>
  C6, amended. When the responder is live and the backend call fails with an error that
  is neither quota nor rate limit, \<open>useOpenAI\<close> stays true, the backend is called once,
  the reply is the keyword fallback for the message content (the apology follows only if
  sending that reply fails), and, when the reply was sent, that reply is handed to
  \<open>addBotMessage\<close> as after a successful call; with context awareness on and a positive
  context size (the setting, or 5 when it is unset or 0) the last turn of the user's
  window is then that reply as an assistant turn.
\<close>

theorem C6_transient_failure_answers_with_fallback:
  assumes "useOpenAI w" and "completion_text (backend e) = Inl err" and "\<not> is_limit_error err"
  shows "useOpenAI (processNaturalLanguage now e message w) \<and>
         (\<exists>model messages temp maxTok.
            trace (processNaturalLanguage now e message w) =
              trace w @
              [(ChatCompletion model messages temp maxTok, False),
               (Reply (getFallbackResponse (msg_content message)), reply_ok e)] @
              (if reply_ok e then [] else [(Reply NLP_APOLOGY, apology_ok e)])) \<and>
         (reply_ok e \<longrightarrow>
            storage (processNaturalLanguage now e message w) =
              addBotMessage now (msg_authorId message) (getFallbackResponse (msg_content message))
                (snd (getContext now (msg_authorId message)
                        (addUserMessage now message (storage w))))) \<and>
         (reply_ok e \<and> wf_store (storage w) \<and>
          (\<exists>bs. getBotSettings (storage w) = Some bs \<and> contextAwareness bs \<and>
                0 < or_default (contextSize bs) DEFAULT_CONTEXT_SIZE) \<longrightarrow>
          last (window (msg_authorId message) (storage (processNaturalLanguage now e message w))) =
            \<lparr>cm_role = Assistant, cm_content = getFallbackResponse (msg_content message),
             cm_timestamp = now\<rparr>)"
proof -
  have ans: "nlp_answer e (msg_content message) w = getFallbackResponse (msg_content message)"
    using assms by (simp add: nlp_answer_def)
  have a: "useOpenAI (processNaturalLanguage now e message w)"
    using assms by (simp add: processNaturalLanguage_useOpenAI)
  have b: "\<exists>model messages temp maxTok.
            trace (processNaturalLanguage now e message w) =
              trace w @
              [(ChatCompletion model messages temp maxTok, False),
               (Reply (getFallbackResponse (msg_content message)), reply_ok e)] @
              (if reply_ok e then [] else [(Reply NLP_APOLOGY, apology_ok e)])"
    using processNaturalLanguage_trace[of now e message w] assms by (simp add: ans)
  have c: "last (window (msg_authorId message) (storage (processNaturalLanguage now e message w))) =
            \<lparr>cm_role = Assistant, cm_content = getFallbackResponse (msg_content message),
             cm_timestamp = now\<rparr>"
    if "reply_ok e" "wf_store (storage w)" "getBotSettings (storage w) = Some bs"
       "contextAwareness bs" "0 < or_default (contextSize bs) DEFAULT_CONTEXT_SIZE" for bs
    using respond_appends_assistant_turn[OF that(2-5) that(1), of message now] by (simp add: ans)
  have d: "storage (processNaturalLanguage now e message w) =
              addBotMessage now (msg_authorId message) (getFallbackResponse (msg_content message))
                (snd (getContext now (msg_authorId message)
                        (addUserMessage now message (storage w))))"
    if "reply_ok e"
    using that by (simp add: processNaturalLanguage_storage ans Let_def)
  from a b c d show ?thesis by blast
qed

theorem C6_transient_failure_witness:
  "useOpenAI (processNaturalLanguage 3 transientEnv dmHello liveWorld) \<and>
   last (window ''42'' (storage (processNaturalLanguage 3 transientEnv dmHello liveWorld))) =
     \<lparr>cm_role = Assistant, cm_content = getFallbackResponse ''hello'', cm_timestamp = 3\<rparr>"
proof -
  have h1: "useOpenAI liveWorld" by (simp add: liveWorld_def)
  have h2: "completion_text (backend transientEnv) = Inl ''Error: connect ETIMEDOUT''"
    by (simp add: transientEnv_def completion_text_def completion_or_def)
  have h3: "\<not> is_limit_error ''Error: connect ETIMEDOUT''" by (simp add: is_limit_error_def)
  have h4: "reply_ok transientEnv" by (simp add: transientEnv_def calmEnv_def)
  have h5: "wf_store (storage liveWorld)"
    by (simp add: wf_store_def liveWorld_def initialStorage_def)
  have h6: "getBotSettings (storage liveWorld) = Some defaultSettings \<and>
            contextAwareness defaultSettings \<and>
            0 < or_default (contextSize defaultSettings) DEFAULT_CONTEXT_SIZE"
    by (simp add: getBotSettings_def liveWorld_def initialStorage_def defaultSettings_def
        or_default_def)
  have m: "msg_authorId dmHello = ''42''" "msg_content dmHello = ''hello''"
    by (simp_all add: dmHello_def)
  from C6_transient_failure_answers_with_fallback[OF h1 h2 h3, of 3 dmHello] h4 h5 h6
  show ?thesis unfolding m by blast
qed

section \<open>Claims about the dispatcher\<close>

lemma getBotSettings_ensureUserExists:
  "getBotSettings (ensureUserExists now message s) = getBotSettings s"
  by (simp add: ensureUserExists_def createDiscordUser_def getBotSettings_def split: option.splits)

lemma truthy_action_str: "truthy (action_str a)"
  by (cases a) (simp_all add: truthy_def)

text \<open>
  C1, on the code. For a message of a non-bot author that is not a command, with
  readable content and \<open>autoModeration\<close> on, the handler ends where \<open>moderateMessage\<close>
  ends, whatever its result: the test \<open>if (moderationResult.action)\<close> is on a string of
  the union \<open>'none' | 'warn' | ...\<close>, and \<open>'none'\<close> is not empty. In particular, when the
  result is \<open>none\<close> no reply is sent and the backend is not called, mention or DM or
  not.
\<close>

theorem C1_moderation_is_always_terminal:
  assumes "isReady w" and "\<not> msg_authorBot message" and "hasMessageContentPrivilege w"
    and "\<not> startsWith (msg_content message) PREFIX"
    and "getBotSettings (storage w) = Some bs" and "autoModeration bs"
  shows "onMessageCreate handleCommand now e message w =
           snd (moderateMessage now e message
                  (w\<lparr>storage := ensureUserExists now message (storage w)\<rparr>)) \<and>
         (mr_action (fst (moderateMessage now e message
                            (w\<lparr>storage := ensureUserExists now message (storage w)\<rparr>))) = ANone \<longrightarrow>
            trace (onMessageCreate handleCommand now e message w) = trace w)"
proof -
  let ?w1 = "w\<lparr>storage := ensureUserExists now message (storage w)\<rparr>"
  have a: "onMessageCreate handleCommand now e message w = snd (moderateMessage now e message ?w1)"
    using assms
    by (simp add: onMessageCreate_def onMessageCreate_try_def Let_def split_beta
        getBotSettings_ensureUserExists truthy_action_str)
  have "trace (snd (moderateMessage now e message ?w1)) = trace w"
    if "mr_action (fst (moderateMessage now e message ?w1)) = ANone"
    using moderateMessage_none_unchanged[OF that] by simp
  with a show ?thesis by simp
qed

text \<open>
  The input at which the code departs from C1: a DM \<open>hello\<close> from user 42, default
  settings, the scorer flags nothing. The classifier returns \<open>none\<close>, the message is a
  DM, and the handler makes no call at all, while the responder on the same input
  would have called the backend and replied.
\<close>

theorem C1_none_result_dm_gets_no_reply:
  "mr_action (fst (moderateMessage 0 calmEnv dmHello
                     (liveWorld\<lparr>storage := ensureUserExists 0 dmHello (storage liveWorld)\<rparr>))) = ANone \<and>
   msg_isDM dmHello \<and>
   trace (onMessageCreate noCommands 0 calmEnv dmHello liveWorld) = [] \<and>
   trace (processNaturalLanguage 0 calmEnv dmHello liveWorld) =
     [(ChatCompletion ''gpt-4o'' [(System, SYSTEM_PROMPT), (User, ''hello'')] ''0.7'' 150, True),
      (Reply ''Hi!'', True)]"
proof -
  have h1: "isReady liveWorld" by (simp add: liveWorld_def)
  have h2: "\<not> msg_authorBot dmHello" by (simp add: dmHello_def)
  have h3: "hasMessageContentPrivilege liveWorld" by (simp add: liveWorld_def)
  have h4: "\<not> startsWith (msg_content dmHello) PREFIX" by (simp add: dmHello_def PREFIX_def)
  have h5: "getBotSettings (storage liveWorld) = Some defaultSettings"
    by (simp add: getBotSettings_def liveWorld_def initialStorage_def)
  have h6: "autoModeration defaultSettings" by (simp add: defaultSettings_def)
  have n: "mr_action (fst (moderateMessage 0 calmEnv dmHello
                     (liveWorld\<lparr>storage := ensureUserExists 0 dmHello (storage liveWorld)\<rparr>))) = ANone"
    by (simp add: moderateMessage_def moderateMessage_try_def liveWorld_def initialStorage_def
        getBotSettings_def defaultSettings_def dmHello_def calmEnv_def unflaggedScores_def
        trim_def truthy_def isWhitespace_def ensureUserExists_def getDiscordUser_def
        createDiscordUser_def map_get_def no_action_def)
  have t: "trace liveWorld = []" by (simp add: liveWorld_def)
  have dm: "msg_isDM dmHello" by (simp add: dmHello_def)
  have p: "trace (processNaturalLanguage 0 calmEnv dmHello liveWorld) =
     [(ChatCompletion ''gpt-4o'' [(System, SYSTEM_PROMPT), (User, ''hello'')] ''0.7'' 150, True),
      (Reply ''Hi!'', True)]"
    by (simp add: processNaturalLanguage_def calmEnv_def liveWorld_def
      initialStorage_def defaultSettings_def dmHello_def completion_text_def completion_or_def
      addUserMessage_def getContext_def addBotMessage_def getBotSettings_def
      getActiveConversationByUserId_def createConversation_def updateConversation_def
      getConversation_def map_get_def or_default_def DEFAULT_CONTEXT_SIZE_def js_slice_def
      str_or_def truthy_def formatContextForNLP_def log_call_def Let_def)
  from C1_moderation_is_always_terminal[OF h1 h2 h3 h4 h5 h6, of noCommands 0 calmEnv] n
  have "trace (onMessageCreate noCommands 0 calmEnv dmHello liveWorld) = trace liveWorld"
    by blast
  with n t dm p show ?thesis by (simp only: simp_thms)
qed

text \<open>
  C7. Without the message-content privilege: (1) an event the handler takes up (bot
  ready, author not a bot) that is a mention or a DM is answered with the fixed
  limited-permissions text, whatever its content, the generic apology following only if
  that reply cannot be sent; (2) an event that is neither a mention nor a DM causes no
  call; (3) the handler's whole result does not depend on the content: replacing the
  content by any other leaves the resulting world the same.
\<close>

theorem C7_limited_mode_routing:
  assumes "\<not> hasMessageContentPrivilege w"
  shows "(isReady w \<and> \<not> msg_authorBot message \<and> (msg_mentionsBot message \<or> msg_isDM message) \<longrightarrow>
            trace (onMessageCreate handleCommand now e message w) =
              trace w @ (Reply LIMITED_REPLY, reply_ok e) #
                (if reply_ok e then [] else [(Reply DISPATCH_APOLOGY, apology_ok e)])) \<and>
         (\<not> (msg_mentionsBot message \<or> msg_isDM message) \<longrightarrow>
            trace (onMessageCreate handleCommand now e message w) = trace w) \<and>
         (\<forall>content'.
            onMessageCreate handleCommand now e (message\<lparr>msg_content := content'\<rparr>) w =
            onMessageCreate handleCommand now e message w)"
proof -
  have u: "ensureUserExists now (message\<lparr>msg_content := content'\<rparr>) s =
           ensureUserExists now message s" for content' s
    by (simp add: ensureUserExists_def split: option.splits)
  have a: "trace (onMessageCreate handleCommand now e message w) =
              trace w @ (Reply LIMITED_REPLY, reply_ok e) #
                (if reply_ok e then [] else [(Reply DISPATCH_APOLOGY, apology_ok e)])"
    if "isReady w" "\<not> msg_authorBot message" "msg_mentionsBot message \<or> msg_isDM message"
    using that assms
    by (simp add: onMessageCreate_def onMessageCreate_try_def Let_def log_call_def)
  have b: "trace (onMessageCreate handleCommand now e message w) = trace w"
    if "\<not> (msg_mentionsBot message \<or> msg_isDM message)"
    using that assms
    by (simp add: onMessageCreate_def onMessageCreate_try_def Let_def)
  have c: "onMessageCreate handleCommand now e (message\<lparr>msg_content := content'\<rparr>) w =
            onMessageCreate handleCommand now e message w" for content'
    using assms
    by (simp add: onMessageCreate_def onMessageCreate_try_def Let_def u)
  from a b c show ?thesis by blast
qed

theorem C7_limited_mode_routing_witness:
  "trace (onMessageCreate noCommands 0 calmEnv (dmHello\<lparr>msg_content := ''!help''\<rparr>) limitedWorld) =
     [(Reply LIMITED_REPLY, True)] \<and>
   trace (onMessageCreate noCommands 0 calmEnv
            (guildMention\<lparr>msg_mentionsBot := False\<rparr>) limitedWorld) = [] \<and>
   onMessageCreate noCommands 0 calmEnv (dmHello\<lparr>msg_content := ''!help''\<rparr>) limitedWorld =
     onMessageCreate noCommands 0 calmEnv dmHello limitedWorld"
proof -
  have h: "\<not> hasMessageContentPrivilege limitedWorld" by (simp add: limitedWorld_def liveWorld_def)
  have r: "isReady limitedWorld" "trace limitedWorld = []"
    by (simp_all add: limitedWorld_def liveWorld_def)
  have m: "\<not> msg_authorBot (dmHello\<lparr>msg_content := ''!help''\<rparr>)"
          "msg_isDM (dmHello\<lparr>msg_content := ''!help''\<rparr>)"
          "\<not> (msg_mentionsBot (guildMention\<lparr>msg_mentionsBot := False\<rparr>) \<or>
              msg_isDM (guildMention\<lparr>msg_mentionsBot := False\<rparr>))"
          "reply_ok calmEnv"
    by (simp_all add: dmHello_def guildMention_def calmEnv_def)
  from C7_limited_mode_routing[OF h, of "dmHello\<lparr>msg_content := ''!help''\<rparr>" noCommands 0 calmEnv] r m
  have a: "trace (onMessageCreate noCommands 0 calmEnv (dmHello\<lparr>msg_content := ''!help''\<rparr>) limitedWorld) =
     [(Reply LIMITED_REPLY, True)]" by simp
  from C7_limited_mode_routing[OF h, of "guildMention\<lparr>msg_mentionsBot := False\<rparr>" noCommands 0 calmEnv] r m
  have b: "trace (onMessageCreate noCommands 0 calmEnv
            (guildMention\<lparr>msg_mentionsBot := False\<rparr>) limitedWorld) = []" by simp
  from C7_limited_mode_routing[OF h, of dmHello noCommands 0 calmEnv]
  have c: "onMessageCreate noCommands 0 calmEnv (dmHello\<lparr>msg_content := ''!help''\<rparr>) limitedWorld =
     onMessageCreate noCommands 0 calmEnv dmHello limitedWorld" by blast
  from a b c show ?thesis by blast
qed

end
